theory Spec2Isabelle
  imports Complex_Main "HOL-Library.AList"
begin

section \<open>The bot orchestration engine of MineStay\<close>

text \<open>
  The development embeds the server side of the repository: the in-memory store
  (\<^verbatim>\<open>MemStorage\<close>) and the bot service (\<^verbatim>\<open>MinecraftBotService\<close>).
  Mutable objects become fields of one explicit \<open>world\<close> record that every operation
  takes and returns; exceptions become values of a sum type; closures handed to
  \<^verbatim>\<open>setTimeout\<close>, \<^verbatim>\<open>setInterval\<close> and the event emitter of the
  protocol client become constructors of a datatype, interpreted by \<open>run_callback\<close> and by
  one function per event handler.

  A method of the service, a listener or a timer callback is one function of the world: it
  runs to its end before anything else happens. The promises that the code awaits from
  \<^verbatim>\<open>MemStorage\<close> are resolved when they are made, so such an \<^verbatim>\<open>await\<close> lets no
  other request, timer or event in, and commands of the protocol client are taken to
  resolve at once. The one place where the order of two requests matters for a property
  below is the \<^verbatim>\<open>await\<close> inside the continuous branch of \<^verbatim>\<open>handleAction\<close>, which
  is modelled as two steps. Between two steps the environment may do anything: timers
  fire in any order (\<open>fire\<close>), the client reports events (\<open>on_spawn\<close>, \<open>on_error\<close>,
  \<open>on_end\<close>, \<open>on_death\<close>, \<open>on_health\<close>, \<open>on_move\<close>) and its observable state changes.

  JavaScript numbers are modelled as reals wherever the code only does arithmetic on
  them; the coordinates of \<^verbatim>\<open>lookAt\<close> are modelled as run-time values, since the
  guard of \<^verbatim>\<open>handleLookAt\<close> inspects their run-time type. A delay is the number of
  milliseconds that the code passes to \<^verbatim>\<open>setTimeout\<close> or \<^verbatim>\<open>setInterval\<close>.
\<close>

subsection \<open>Values\<close>

datatype vec3 = Vec3 real real real

text \<open>\<^verbatim>\<open>Vec3.distanceTo\<close> of the vec3 package: the Euclidean distance.\<close>

fun distanceTo :: "vec3 \<Rightarrow> vec3 \<Rightarrow> real" where
  "distanceTo (Vec3 ax ay az) (Vec3 bx by bz) =
     sqrt ((bx - ax) * (bx - ax) + (by - ay) * (by - ay) + (bz - az) * (bz - az))"

datatype number = Finite real | NaN | PosInfinity | NegInfinity

datatype jsval = JNumber number | JString string | JBoolean bool | JNull | JUndefined

fun typeof :: "jsval \<Rightarrow> string" where
  "typeof (JNumber n) = ''number''"
| "typeof (JString s) = ''string''"
| "typeof (JBoolean b) = ''boolean''"
| "typeof JNull = ''object''"
| "typeof JUndefined = ''undefined''"

fun is_finite :: "jsval \<Rightarrow> bool" where
  "is_finite (JNumber (Finite r)) = True"
| "is_finite v = False"

datatype coordinates = Coordinates jsval jsval jsval

text \<open>An inventory entry: slot, name, count, display name.\<close>

type_synonym inv_entry = "real \<times> string \<times> real \<times> string"

subsection \<open>The persisted bot record and the store\<close>

text \<open>
  \<^verbatim>\<open>Bot\<close> of \<^verbatim>\<open>shared/schema.ts\<close>: every column but \<^verbatim>\<open>id\<close>, \<^verbatim>\<open>name\<close>
  and \<^verbatim>\<open>status\<close> is nullable. Dates are milliseconds.
\<close>

record bot_record =
  bot_id :: string
  name :: string
  status :: string
  position :: "vec3 option"
  health :: "real option"
  food :: "real option"
  inventory :: "inv_entry list option"
  uptime :: "real option"
  createdAt :: "nat option"
  lastConnected :: "nat option"

text \<open>
  \<^verbatim>\<open>Partial<Bot>\<close>: a field is \<open>Some v\<close> when the key is supplied with value \<open>v\<close>, and
  \<open>None\<close> when the key is not in the object.
\<close>

record bot_updates =
  new_id :: "string option"
  new_name :: "string option"
  new_status :: "string option"
  new_position :: "vec3 option option"
  new_health :: "real option option"
  new_food :: "real option option"
  new_inventory :: "inv_entry list option option"
  new_uptime :: "real option option"
  new_createdAt :: "nat option option"
  new_lastConnected :: "nat option option"

definition no_updates :: bot_updates where
  "no_updates = \<lparr> new_id = None, new_name = None, new_status = None, new_position = None,
     new_health = None, new_food = None, new_inventory = None, new_uptime = None,
     new_createdAt = None, new_lastConnected = None \<rparr>"

definition supplied :: "'a option \<Rightarrow> 'a \<Rightarrow> 'a" where
  "supplied u old = (case u of None \<Rightarrow> old | Some v \<Rightarrow> v)"

text \<open>The object spread \<^verbatim>\<open>{ ...bot, ...updates }\<close>.\<close>

definition spread :: "bot_record \<Rightarrow> bot_updates \<Rightarrow> bot_record" where
  "spread b u =
     \<lparr> bot_id = supplied (new_id u) (bot_id b),
       name = supplied (new_name u) (name b),
       status = supplied (new_status u) (status b),
       position = supplied (new_position u) (position b),
       health = supplied (new_health u) (health b),
       food = supplied (new_food u) (food b),
       inventory = supplied (new_inventory u) (inventory b),
       uptime = supplied (new_uptime u) (uptime b),
       createdAt = supplied (new_createdAt u) (createdAt b),
       lastConnected = supplied (new_lastConnected u) (lastConnected b) \<rparr>"

type_synonym store = "string \<rightharpoonup> bot_record"

text \<open>\<^verbatim>\<open>MemStorage.getBot\<close> and \<^verbatim>\<open>MemStorage.updateBot\<close>: the result and the new map.\<close>

definition getBot :: "store \<Rightarrow> string \<Rightarrow> bot_record option" where
  "getBot s i = s i"

definition updateBot :: "store \<Rightarrow> string \<Rightarrow> bot_updates \<Rightarrow> bot_record option \<times> store" where
  "updateBot s i updates =
     (case s i of
        None \<Rightarrow> (None, s)
      | Some b \<Rightarrow> (let updatedBot = spread b updates in (Some updatedBot, s(i \<mapsto> updatedBot))))"

subsection \<open>The protocol client\<close>

text \<open>
  The object returned by \<^verbatim>\<open>createBot\<close> of mineflayer is an external collaborator.
  The record keeps what the service writes to it (control flags, the commands issued, whether
  \<^verbatim>\<open>quit\<close> was called, whether the one-shot \<^verbatim>\<open>spawn\<close> listener has run) and
  what the service reads from it (entity, health, food, held item, inventory slots, the
  results of the block and entity queries, and whether \<^verbatim>\<open>activateBlock\<close> and
  \<^verbatim>\<open>placeBlock\<close> fail, which decides the fallbacks of a right click). A failing
  \<^verbatim>\<open>dig\<close> or \<^verbatim>\<open>useOn\<close> is only logged to the console. Commands awaited
  outside a \<^verbatim>\<open>try\<close> are taken to resolve.
\<close>

record entity =
  entity_position :: "vec3 option"
  yaw :: real
  pitch :: real

record item =
  item_type :: nat
  item_name :: string
  item_count :: real
  item_displayName :: "string option"

datatype command =
    CmdSwingArm
  | CmdDig nat
  | CmdAttack nat
  | CmdActivateBlock nat
  | CmdPlaceBlock nat vec3
  | CmdActivateItem
  | CmdUseOn nat
  | CmdToss nat real
  | CmdLook real real
  | CmdLookAt jsval jsval jsval
  | CmdSetQuickBarSlot real
  | CmdMoveSlotItem real real
  | CmdRespawn

record client =
  username :: string
  controlState :: "string \<Rightarrow> bool"
  commands :: "command list"
  quit_called :: bool
  spawn_seen :: bool
  bot_entity :: "entity option"
  bot_health :: real
  bot_food :: real
  heldItem :: "item option"
  slots :: "nat \<Rightarrow> item option"
  blockAtCursor :: "nat option"
  nearestMob :: "nat option"
  nearestVillager :: "nat option"
  activateBlock_fails :: bool
  placeBlock_fails :: bool

text \<open>\<^verbatim>\<open>bot.entity?.position\<close>.\<close>

definition entity_pos :: "client \<Rightarrow> vec3 option" where
  "entity_pos c = (case bot_entity c of None \<Rightarrow> None | Some e \<Rightarrow> entity_position e)"

text \<open>The client as \<^verbatim>\<open>createBot\<close> returns it: nothing pressed, nothing issued, not spawned.\<close>

definition new_client :: "string \<Rightarrow> client" where
  "new_client n =
     \<lparr> username = n, controlState = (\<lambda>c. False), commands = [], quit_called = False,
       spawn_seen = False, bot_entity = None, bot_health = 20, bot_food = 20, heldItem = None,
       slots = (\<lambda>i. None), blockAtCursor = None, nearestMob = None, nearestVillager = None,
       activateBlock_fails = False, placeBlock_fails = False \<rparr>"

subsection \<open>Sessions, timers and the world\<close>

text \<open>
  \<^verbatim>\<open>BotInstance\<close>. The map \<^verbatim>\<open>actionIntervals\<close> is an association list in insertion
  order, as a JavaScript \<^verbatim>\<open>Map\<close> is; its values are timer handles.
\<close>

record bot_instance =
  bot_client :: client
  data :: bot_record
  startTime :: nat
  actionIntervals :: "(string \<times> nat) list"
  continuousActions :: "string set"

text \<open>
  The closures that the service hands to \<^verbatim>\<open>setTimeout\<close> and \<^verbatim>\<open>setInterval\<close>,
  each with the variables it captures. A \<^verbatim>\<open>BotInstance\<close> is captured by reference:
  the number is its address in \<open>insts\<close>.
\<close>

datatype callback =
    JumpRelease nat
  | CheckDistance nat vec3 string real
  | ExecuteAction nat string
  | JumpInterval nat
  | UpdateUptime nat
  | UpdateInventory nat
  | Reconnect string
  | ReconnectRetry string

record timer =
  repeating :: bool
  delay :: real
  callback :: callback

datatype event =
    StatusChange string string "(vec3 option \<times> real option \<times> real option) option"
  | ErrorEvent string string
  | InventoryUpdate string "inv_entry list"

text \<open>
  The errors the service raises: \<open>NotRunning\<close> is \<^verbatim>\<open>'Bot not found or not running'\<close>,
  \<open>EntityUnavailable\<close> is \<^verbatim>\<open>'Bot entity not available for movement'\<close> (and
  \<^verbatim>\<open>for looking\<close>), \<open>InvalidCoordinates\<close> is
  \<^verbatim>\<open>'Invalid coordinates provided for lookAt'\<close>, and \<open>ConnectionFailed\<close> carries the
  message of the error that \<^verbatim>\<open>createBot\<close> threw and \<^verbatim>\<open>startBot\<close> rethrows.
\<close>

datatype error = NotRunning | EntityUnavailable | InvalidCoordinates | ConnectionFailed string

text \<open>
  The state of the process: the registry \<^verbatim>\<open>MinecraftBotService.bots\<close> (identifier to
  the address of a \<^verbatim>\<open>BotInstance\<close>), the instances themselves, the store
  \<^verbatim>\<open>MemStorage.bots\<close>, the events emitted so far, the timers that are still
  scheduled, the clock, and whether \<^verbatim>\<open>createBot\<close> throws (and with what message).
\<close>

record world =
  bots :: "string \<rightharpoonup> nat"
  insts :: "nat \<Rightarrow> bot_instance"
  next_ref :: nat
  storage :: store
  emitted :: "event list"
  timers :: "nat \<rightharpoonup> timer"
  next_handle :: nat
  clock :: nat
  createBot_error :: "string option"

subsection \<open>Primitive effects\<close>

definition upd_inst :: "world \<Rightarrow> nat \<Rightarrow> (bot_instance \<Rightarrow> bot_instance) \<Rightarrow> world" where
  "upd_inst w r f = w\<lparr>insts := (insts w)(r := f (insts w r))\<rparr>"

definition upd_client :: "world \<Rightarrow> nat \<Rightarrow> (client \<Rightarrow> client) \<Rightarrow> world" where
  "upd_client w r f = upd_inst w r (\<lambda>i. i\<lparr>bot_client := f (bot_client i)\<rparr>)"

definition setControlState :: "world \<Rightarrow> nat \<Rightarrow> string \<Rightarrow> bool \<Rightarrow> world" where
  "setControlState w r control v =
     upd_client w r (\<lambda>c. c\<lparr>controlState := (controlState c)(control := v)\<rparr>)"

definition issue :: "world \<Rightarrow> nat \<Rightarrow> command \<Rightarrow> world" where
  "issue w r cmd = upd_client w r (\<lambda>c. c\<lparr>commands := commands c @ [cmd]\<rparr>)"

definition schedule :: "world \<Rightarrow> bool \<Rightarrow> real \<Rightarrow> callback \<Rightarrow> nat \<times> world" where
  "schedule w rep ms cb =
     (next_handle w,
      w\<lparr>timers := (timers w)(next_handle w \<mapsto> \<lparr>repeating = rep, delay = ms, callback = cb\<rparr>),
        next_handle := Suc (next_handle w)\<rparr>)"

definition setTimeout :: "world \<Rightarrow> callback \<Rightarrow> real \<Rightarrow> nat \<times> world" where
  "setTimeout w cb ms = schedule w False ms cb"

definition setInterval :: "world \<Rightarrow> callback \<Rightarrow> real \<Rightarrow> nat \<times> world" where
  "setInterval w cb ms = schedule w True ms cb"

definition clearInterval :: "world \<Rightarrow> nat \<Rightarrow> world" where
  "clearInterval w h = w\<lparr>timers := (timers w)(h := None)\<rparr>"

text \<open>\<^verbatim>\<open>actionIntervals.forEach(interval => clearInterval(interval))\<close>.\<close>

fun clearIntervals :: "world \<Rightarrow> nat list \<Rightarrow> world" where
  "clearIntervals w [] = w"
| "clearIntervals w (h # hs) = clearIntervals (clearInterval w h) hs"

definition storage_updateBot :: "world \<Rightarrow> string \<Rightarrow> bot_updates \<Rightarrow> world" where
  "storage_updateBot w i updates = w\<lparr>storage := snd (updateBot (storage w) i updates)\<rparr>"

definition emit :: "world \<Rightarrow> event \<Rightarrow> world" where
  "emit w e = w\<lparr>emitted := emitted w @ [e]\<rparr>"

subsection \<open>Stopping and starting a bot\<close>

definition only_status :: "string \<Rightarrow> bot_updates" where
  "only_status st = no_updates\<lparr>new_status := Some st\<rparr>"

text \<open>\<^verbatim>\<open>MinecraftBotService.stopBot\<close>.\<close>

definition stopBot :: "world \<Rightarrow> string \<Rightarrow> world" where
  "stopBot w botId =
     (case bots w botId of
        None \<Rightarrow> w
      | Some r \<Rightarrow>
          (let w1 = clearIntervals w (map snd (actionIntervals (insts w r)));
               w2 = upd_inst w1 r (\<lambda>i. i\<lparr>actionIntervals := [], continuousActions := {}\<rparr>);
               w3 = upd_client w2 r (\<lambda>c. c\<lparr>quit_called := True\<rparr>);
               w4 = w3\<lparr>bots := (bots w3)(botId := None)\<rparr>;
               w5 = storage_updateBot w4 botId (only_status ''offline'')
           in emit w5 (StatusChange botId ''offline'' None)))"

text \<open>
  \<^verbatim>\<open>MinecraftBotService.startBot\<close>, for a call that nothing interrupts: the promises
  that it awaits are resolved at once, so only a call made in the same turn of the event
  loop can come in between; \<open>startBot_start\<close> and \<open>startBot_resume\<close> below are the call
  in its steps. Registering the event listeners
  (\<^verbatim>\<open>setupBotEventHandlers\<close>) changes no field of the world: the listeners are the
  functions \<open>on_spawn\<close>, \<open>on_error\<close>, \<open>on_end\<close>, \<open>on_death\<close>, \<open>on_health\<close> and
  \<open>on_move\<close> below, which take the address of the instance they were registered for.
\<close>

definition startBot :: "world \<Rightarrow> bot_record \<Rightarrow> (error + unit) \<times> world" where
  "startBot w botData =
     (let w0 = (if bots w (bot_id botData) \<noteq> None then stopBot w (bot_id botData) else w);
          w1 = storage_updateBot w0 (bot_id botData) (only_status ''connecting'');
          w2 = emit w1 (StatusChange (bot_id botData) ''connecting'' None)
      in case createBot_error w2 of
           Some msg \<Rightarrow>
             (let w3 = storage_updateBot w2 (bot_id botData) (only_status ''error'');
                  w4 = emit w3 (ErrorEvent (bot_id botData) (''Failed to start bot: '' @ msg))
              in (Inl (ConnectionFailed msg), w4))
         | None \<Rightarrow>
             (let r = next_ref w2;
                  botInstance = \<lparr> bot_client = new_client (name botData), data = botData,
                    startTime = clock w2, actionIntervals = [], continuousActions = {} \<rparr>
              in (Inr (),
                  w2\<lparr>insts := (insts w2)(r := botInstance), next_ref := Suc r,
                     bots := (bots w2)(bot_id botData \<mapsto> r)\<rparr>)))"

text \<open>
  \<^verbatim>\<open>MinecraftBotService.restartBot\<close>: the error of \<^verbatim>\<open>startBot\<close> is caught and
  logged, so the result is never an error.
\<close>

definition restartBot :: "world \<Rightarrow> string \<Rightarrow> (error + unit) \<times> world" where
  "restartBot w botId =
     (case getBot (storage w) botId of
        None \<Rightarrow> (Inr (), w)
      | Some botData \<Rightarrow>
          if status botData \<noteq> ''offline''
          then (case startBot w botData of
                  (Inl e, w') \<Rightarrow> (Inr (), w')
                | (Inr u, w') \<Rightarrow> (Inr (), w'))
          else (Inr (), w))"

subsection \<open>Actions\<close>

text \<open>
  The closure \<^verbatim>\<open>executeAction\<close> inside \<^verbatim>\<open>handleAction\<close>: the behaviour of one
  action kind, run once.
\<close>

definition executeAction_closure :: "world \<Rightarrow> nat \<Rightarrow> string \<Rightarrow> world" where
  "executeAction_closure w r actionType =
     (let c = bot_client (insts w r) in
      if actionType = ''mine'' then
        (let w1 = issue w r CmdSwingArm in
         case blockAtCursor c of
           None \<Rightarrow> w1
         | Some targetBlock \<Rightarrow> issue w1 r (CmdDig targetBlock))
      else if actionType = ''attack'' then
        (let w1 = issue w r CmdSwingArm in
         case (if entity_pos c \<noteq> None then nearestMob c else None) of
           None \<Rightarrow> w1
         | Some e \<Rightarrow> issue w1 r (CmdAttack e))
      else if actionType = ''rightClick'' then
        (case blockAtCursor c of
           Some blockToInteract \<Rightarrow>
             (let w1 = issue w r (CmdActivateBlock blockToInteract) in
              if activateBlock_fails c then
                (if heldItem c \<noteq> None then
                   (let w2 = issue w1 r (CmdPlaceBlock blockToInteract (Vec3 0 1 0)) in
                    if placeBlock_fails c then issue w2 r CmdActivateItem else w2)
                 else issue w1 r CmdActivateItem)
              else w1)
         | None \<Rightarrow>
             (case (if entity_pos c \<noteq> None then nearestVillager c else None) of
                Some villager \<Rightarrow> issue w r (CmdUseOn villager)
              | None \<Rightarrow> issue w r CmdActivateItem))
      else if actionType = ''dropItem'' then
        (case heldItem c of
           None \<Rightarrow> w
         | Some it \<Rightarrow> issue w r (CmdToss (item_type it) 1))
      else if actionType = ''dropStack'' then
        (case heldItem c of
           None \<Rightarrow> w
         | Some it \<Rightarrow> issue w r (CmdToss (item_type it) (item_count it)))
      else if actionType = ''sprint'' then setControlState w r ''sprint'' True
      else if actionType = ''jump'' then
        snd (setTimeout (setControlState w r ''jump'' True) (JumpRelease r) 100)
      else if actionType = ''sneak'' then setControlState w r ''sneak'' True
      else w)"

text \<open>
  \<^verbatim>\<open>handleAction\<close> awaits the first run of the behaviour in continuous mode before it
  installs the timer, and that run awaits the protocol client (\<^verbatim>\<open>dig\<close>,
  \<^verbatim>\<open>activateBlock\<close>, \<^verbatim>\<open>toss\<close>), so other requests and timers run between the
  two halves. \<open>handleAction_start\<close> is the method up to that \<^verbatim>\<open>await\<close>, and returns what
  is left to do; \<open>handleAction_finish\<close> is the rest; \<open>handleAction\<close> is a call that nothing
  interrupts.
\<close>

datatype pending = InstallContinuous nat string

definition handleAction_start ::
  "world \<Rightarrow> nat \<Rightarrow> string \<Rightarrow> string \<Rightarrow> real option \<Rightarrow> pending option \<times> world" where
  "handleAction_start w r actionType mode interval =
     (let w1 = (case map_of (actionIntervals (insts w r)) actionType of
                  None \<Rightarrow> w
                | Some existingInterval \<Rightarrow>
                    upd_inst (clearInterval w existingInterval) r
                      (\<lambda>i. i\<lparr>actionIntervals := AList.delete actionType (actionIntervals i)\<rparr>));
          w2 = upd_inst w1 r (\<lambda>i. i\<lparr>continuousActions := continuousActions i - {actionType}\<rparr>)
      in if mode = ''stop'' then
           (None,
            if actionType = ''sprint'' then setControlState w2 r ''sprint'' False
            else if actionType = ''sneak'' then setControlState w2 r ''sneak'' False
            else w2)
         else if mode = ''once'' then (None, executeAction_closure w2 r actionType)
         else if mode = ''continuous'' then
           (let w3 = upd_inst w2 r
                  (\<lambda>i. i\<lparr>continuousActions := insert actionType (continuousActions i)\<rparr>)
            in if actionType = ''sprint'' then (None, setControlState w3 r ''sprint'' True)
               else if actionType = ''sneak'' then (None, setControlState w3 r ''sneak'' True)
               else if actionType = ''jump'' then
                 (let (jumpInterval, w4) = setInterval w3 (JumpInterval r) 500
                  in (None, upd_inst w4 r
                        (\<lambda>i. i\<lparr>actionIntervals :=
                                  AList.update actionType jumpInterval (actionIntervals i)\<rparr>)))
               else (Some (InstallContinuous r actionType), executeAction_closure w3 r actionType))
         else if mode = ''interval'' then
           (case interval of
              None \<Rightarrow> (None, w2)
            | Some t \<Rightarrow>
                if t \<noteq> 0 \<and> t > 0 then
                  (let intervalMs = (t / 20) * 1000;
                       (actionInterval, w3) = setInterval w2 (ExecuteAction r actionType) intervalMs
                   in (None, upd_inst w3 r
                         (\<lambda>i. i\<lparr>actionIntervals :=
                                   AList.update actionType actionInterval (actionIntervals i)\<rparr>)))
                else (None, w2))
         else (None, w2))"

definition handleAction_finish :: "world \<Rightarrow> pending \<Rightarrow> world" where
  "handleAction_finish w p =
     (case p of
        InstallContinuous r actionType \<Rightarrow>
          (let (continuousInterval, w1) = setInterval w (ExecuteAction r actionType) 50
           in upd_inst w1 r
                (\<lambda>i. i\<lparr>actionIntervals :=
                          AList.update actionType continuousInterval (actionIntervals i)\<rparr>)))"

definition handleAction :: "world \<Rightarrow> nat \<Rightarrow> string \<Rightarrow> string \<Rightarrow> real option \<Rightarrow> world" where
  "handleAction w r actionType mode interval =
     (case handleAction_start w r actionType mode interval of
        (None, w') \<Rightarrow> w'
      | (Some p, w') \<Rightarrow> handleAction_finish w' p)"

text \<open>The control flag of a direction, as \<^verbatim>\<open>handleMovement\<close> chooses it.\<close>

definition controlStateOf :: "string \<Rightarrow> string" where
  "controlStateOf direction =
     (if direction = ''forward'' then ''forward''
      else if direction = ''backward'' then ''back''
      else if direction = ''left'' then ''left''
      else ''right'')"

datatype distance = Continuous | Blocks real

text \<open>
  \<^verbatim>\<open>handleMovement\<close>. The local function \<^verbatim>\<open>checkDistance\<close> is the callback
  \<open>CheckDistance\<close>, which captures the start position, the control flag and the distance.
\<close>

definition handleMovement :: "world \<Rightarrow> nat \<Rightarrow> string \<Rightarrow> distance \<Rightarrow> (error + unit) \<times> world" where
  "handleMovement w r direction distance =
     (case distance of
        Continuous \<Rightarrow>
          (let w1 = setControlState w r ''forward'' False;
               w2 = setControlState w1 r ''back'' False;
               w3 = setControlState w2 r ''left'' False;
               w4 = setControlState w3 r ''right'' False
           in (Inr (), setControlState w4 r (controlStateOf direction) True))
      | Blocks d \<Rightarrow>
          (case entity_pos (bot_client (insts w r)) of
             None \<Rightarrow> (Inl EntityUnavailable, w)
           | Some startPos \<Rightarrow>
               (let w1 = setControlState w r (controlStateOf direction) True
                in (Inr (),
                    snd (setTimeout w1 (CheckDistance r startPos (controlStateOf direction) d) 50)))))"

definition checkDistance :: "world \<Rightarrow> nat \<Rightarrow> vec3 \<Rightarrow> string \<Rightarrow> real \<Rightarrow> world" where
  "checkDistance w r startPos control d =
     (case entity_pos (bot_client (insts w r)) of
        None \<Rightarrow> setControlState w r control False
      | Some currentPos \<Rightarrow>
          (let distanceMoved = distanceTo startPos currentPos
           in if distanceMoved \<ge> d then setControlState w r control False
              else snd (setTimeout w (CheckDistance r startPos control d) 50)))"

definition handleLooking :: "world \<Rightarrow> nat \<Rightarrow> string \<Rightarrow> real \<Rightarrow> (error + unit) \<times> world" where
  "handleLooking w r direction degrees =
     (case bot_entity (bot_client (insts w r)) of
        None \<Rightarrow> (Inl EntityUnavailable, w)
      | Some e \<Rightarrow>
          (let radians = (degrees * pi) / 180;
               newYaw = (if direction = ''left'' then yaw e - radians
                         else if direction = ''right'' then yaw e + radians else yaw e);
               newPitch = (if direction = ''up'' then pitch e - radians
                           else if direction = ''down'' then pitch e + radians else pitch e)
           in (Inr (), issue w r (CmdLook newYaw newPitch))))"

text \<open>
  \<^verbatim>\<open>handleLookAt\<close>: the guard tests that the object is there and that the run-time type
  of each coordinate is \<^verbatim>\<open>'number'\<close>.
\<close>

definition handleLookAt :: "world \<Rightarrow> nat \<Rightarrow> coordinates option \<Rightarrow> (error + unit) \<times> world" where
  "handleLookAt w r coords =
     (case coords of
        None \<Rightarrow> (Inl InvalidCoordinates, w)
      | Some (Coordinates cx cy cz) \<Rightarrow>
          if typeof cx \<noteq> ''number'' \<or> typeof cy \<noteq> ''number'' \<or> typeof cz \<noteq> ''number''
          then (Inl InvalidCoordinates, w)
          else (Inr (), issue w r (CmdLookAt cx cy cz)))"

text \<open>\<^verbatim>\<open>BotAction\<close> of \<^verbatim>\<open>shared/schema.ts\<close>.\<close>

datatype action =
    MoveAction string distance
  | LookAction string real
  | LookAtAction "coordinates option"
  | JumpAction
  | SneakAction bool
  | MineAction string "real option"
  | AttackAction string "real option"
  | RightClickAction string "real option"
  | DropItemAction string "real option"
  | DropStackAction string "real option"
  | SprintAction string "real option"
  | SelectSlotAction real
  | SwapOffhandAction real

text \<open>\<^verbatim>\<open>MinecraftBotService.executeAction\<close>, for a call that nothing interrupts.\<close>

definition executeAction :: "world \<Rightarrow> string \<Rightarrow> action \<Rightarrow> (error + unit) \<times> world" where
  "executeAction w botId act =
     (case bots w botId of
        None \<Rightarrow> (Inl NotRunning, w)
      | Some r \<Rightarrow>
          (case act of
             MoveAction direction distance \<Rightarrow> handleMovement w r direction distance
           | LookAction direction degrees \<Rightarrow> handleLooking w r direction degrees
           | LookAtAction coords \<Rightarrow> handleLookAt w r coords
           | JumpAction \<Rightarrow>
               (Inr (), snd (setTimeout (setControlState w r ''jump'' True) (JumpRelease r) 100))
           | SneakAction toggle \<Rightarrow> (Inr (), setControlState w r ''sneak'' toggle)
           | MineAction mode interval \<Rightarrow> (Inr (), handleAction w r ''mine'' mode interval)
           | AttackAction mode interval \<Rightarrow> (Inr (), handleAction w r ''attack'' mode interval)
           | RightClickAction mode interval \<Rightarrow>
               (Inr (), handleAction w r ''rightClick'' mode interval)
           | DropItemAction mode interval \<Rightarrow> (Inr (), handleAction w r ''dropItem'' mode interval)
           | DropStackAction mode interval \<Rightarrow>
               (Inr (), handleAction w r ''dropStack'' mode interval)
           | SprintAction mode interval \<Rightarrow> (Inr (), handleAction w r ''sprint'' mode interval)
           | SelectSlotAction slot \<Rightarrow> (Inr (), issue w r (CmdSetQuickBarSlot slot))
           | SwapOffhandAction slot \<Rightarrow>
               (Inr (),
                if heldItem (bot_client (insts w r)) \<noteq> None
                then issue w r (CmdMoveSlotItem (36 + slot) 45) else w)))"

subsection \<open>Telemetry\<close>

definition updateUptime :: "world \<Rightarrow> nat \<Rightarrow> world" where
  "updateUptime w r =
     (let up = of_int ((int (clock w) - int (startTime (insts w r))) div 1000)
      in storage_updateBot w (bot_id (data (insts w r))) (no_updates\<lparr>new_uptime := Some (Some up)\<rparr>))"

definition startUptimeTracking :: "world \<Rightarrow> nat \<Rightarrow> world" where
  "startUptimeTracking w r =
     (let (uptimeInterval, w1) = setInterval w (UpdateUptime r) 30000
      in upd_inst w1 r
           (\<lambda>i. i\<lparr>actionIntervals := AList.update ''uptime'' uptimeInterval (actionIntervals i)\<rparr>))"

text \<open>\<^verbatim>\<open>item.displayName || item.name\<close>: an absent or empty display name gives the name.\<close>

definition inv_entry_of :: "real \<Rightarrow> item \<Rightarrow> inv_entry" where
  "inv_entry_of slot it =
     (slot, item_name it, item_count it,
      (case item_displayName it of
         None \<Rightarrow> item_name it
       | Some dn \<Rightarrow> if dn = [] then item_name it else dn))"

definition updateInventory :: "world \<Rightarrow> nat \<Rightarrow> world" where
  "updateInventory w r =
     (let c = bot_client (insts w r);
          hotbar = concat (map (\<lambda>i. case slots c i of
                                       None \<Rightarrow> []
                                     | Some it \<Rightarrow> [inv_entry_of (real i - 36) it]) [36..<45]);
          inv = hotbar @ (case slots c 45 of None \<Rightarrow> [] | Some it \<Rightarrow> [inv_entry_of 9 it]);
          w1 = storage_updateBot w (bot_id (data (insts w r)))
                 (no_updates\<lparr>new_inventory := Some (Some inv)\<rparr>)
      in emit w1 (InventoryUpdate (bot_id (data (insts w r))) inv))"

definition startInventoryMonitoring :: "world \<Rightarrow> nat \<Rightarrow> world" where
  "startInventoryMonitoring w r =
     (let (inventoryInterval, w1) = setInterval w (UpdateInventory r) 5000;
          w2 = upd_inst w1 r
                 (\<lambda>i. i\<lparr>actionIntervals :=
                           AList.update ''inventory'' inventoryInterval (actionIntervals i)\<rparr>)
      in updateInventory w2 r)"

definition updateBotStats :: "world \<Rightarrow> nat \<Rightarrow> world" where
  "updateBotStats w r =
     (let c = bot_client (insts w r);
          w1 = storage_updateBot w (bot_id (data (insts w r)))
                 (no_updates\<lparr>new_health := Some (Some (bot_health c)),
                             new_food := Some (Some (bot_food c))\<rparr>)
      in emit w1 (StatusChange (bot_id (data (insts w r))) ''online''
                    (Some (None, Some (bot_health c), Some (bot_food c)))))"

subsection \<open>Timers firing\<close>

text \<open>
  The callback of the five-second timer that the \<^verbatim>\<open>end\<close> listener sets: it awaits
  \<^verbatim>\<open>restartBot\<close>, and its \<^verbatim>\<open>catch\<close> sets the ten-second timer, whose callback
  awaits \<^verbatim>\<open>restartBot\<close> once more and logs a failure.
\<close>

definition reconnect :: "world \<Rightarrow> string \<Rightarrow> world" where
  "reconnect w botId =
     (case restartBot w botId of
        (Inr u, w') \<Rightarrow> w'
      | (Inl e, w') \<Rightarrow> snd (setTimeout w' (ReconnectRetry botId) 10000))"

definition reconnect_retry :: "world \<Rightarrow> string \<Rightarrow> world" where
  "reconnect_retry w botId = snd (restartBot w botId)"

definition run_callback :: "world \<Rightarrow> callback \<Rightarrow> world" where
  "run_callback w cb =
     (case cb of
        JumpRelease r \<Rightarrow> setControlState w r ''jump'' False
      | CheckDistance r startPos control d \<Rightarrow> checkDistance w r startPos control d
      | ExecuteAction r actionType \<Rightarrow> executeAction_closure w r actionType
      | JumpInterval r \<Rightarrow>
          snd (setTimeout (setControlState w r ''jump'' True) (JumpRelease r) 100)
      | UpdateUptime r \<Rightarrow> updateUptime w r
      | UpdateInventory r \<Rightarrow> updateInventory w r
      | Reconnect botId \<Rightarrow> reconnect w botId
      | ReconnectRetry botId \<Rightarrow> reconnect_retry w botId)"

text \<open>
  A timer fires: a handle that was cleared, or never set, does nothing; a timeout leaves
  the table before its callback runs; an interval stays.
\<close>

definition fire :: "world \<Rightarrow> nat \<Rightarrow> world" where
  "fire w h =
     (case timers w h of
        None \<Rightarrow> w
      | Some t \<Rightarrow>
          run_callback (if repeating t then w else w\<lparr>timers := (timers w)(h := None)\<rparr>)
            (callback t))"

subsection \<open>The listeners of the protocol client\<close>

fun starts_with :: "string \<Rightarrow> string \<Rightarrow> bool" where
  "starts_with s [] = True"
| "starts_with [] (c # cs) = False"
| "starts_with (a # s) (c # cs) = (a = c \<and> starts_with s cs)"

text \<open>\<^verbatim>\<open>String.prototype.includes\<close>.\<close>

fun str_includes :: "string \<Rightarrow> string \<Rightarrow> bool" where
  "str_includes [] sub = (sub = [])"
| "str_includes (a # s) sub = (starts_with (a # s) sub \<or> str_includes s sub)"

text \<open>The listener of \<^verbatim>\<open>spawn\<close>, registered with \<^verbatim>\<open>once\<close>.\<close>

definition on_spawn :: "world \<Rightarrow> nat \<Rightarrow> world" where
  "on_spawn w r =
     (if spawn_seen (bot_client (insts w r)) then w
      else
        (let w0 = upd_client w r (\<lambda>c. c\<lparr>spawn_seen := True\<rparr>);
             c = bot_client (insts w0 r);
             i = bot_id (data (insts w0 r));
             pos = (case entity_pos c of None \<Rightarrow> Vec3 0 0 0 | Some p \<Rightarrow> p);
             w1 = storage_updateBot w0 i
                    (no_updates\<lparr>new_status := Some ''online'',
                                new_lastConnected := Some (Some (clock w0)),
                                new_position := Some (Some pos)\<rparr>);
             w2 = emit w1 (StatusChange i ''online''
                             (Some (Some pos, Some (bot_health c), Some (bot_food c))));
             w3 = startUptimeTracking w2 r
         in startInventoryMonitoring w3 r))"

text \<open>The listener of \<^verbatim>\<open>error\<close>; the argument is \<^verbatim>\<open>error.message\<close>.\<close>

definition on_error :: "world \<Rightarrow> nat \<Rightarrow> string \<Rightarrow> world" where
  "on_error w r message =
     (let i = bot_id (data (insts w r));
          w1 = storage_updateBot w i (only_status ''error'');
          w2 = emit w1 (ErrorEvent i message)
      in if str_includes message ''unknown chat format code''
         then w2\<lparr>bots := (bots w2)(i := None)\<rparr>
         else w2)"

text \<open>The listener of \<^verbatim>\<open>end\<close>; the argument is the reason.\<close>

definition on_end :: "world \<Rightarrow> nat \<Rightarrow> string \<Rightarrow> world" where
  "on_end w r reason =
     (let i = bot_id (data (insts w r));
          w1 = storage_updateBot w i (only_status ''offline'');
          w2 = emit w1 (StatusChange i ''offline'' None);
          w3 = clearIntervals w2 (map snd (actionIntervals (insts w2 r)));
          w4 = upd_inst w3 r (\<lambda>b. b\<lparr>actionIntervals := [], continuousActions := {}\<rparr>);
          w5 = w4\<lparr>bots := (bots w4)(i := None)\<rparr>
      in if reason \<noteq> ''disconnect.quitting'' \<and> reason = ''socketClosed''
         then snd (setTimeout w5 (Reconnect i) 5000)
         else w5)"

definition on_death :: "world \<Rightarrow> nat \<Rightarrow> world" where
  "on_death w r = issue w r CmdRespawn"

definition on_health :: "world \<Rightarrow> nat \<Rightarrow> world" where
  "on_health w r = updateBotStats w r"

definition on_move :: "world \<Rightarrow> nat \<Rightarrow> world" where
  "on_move w r =
     (case entity_pos (bot_client (insts w r)) of
        None \<Rightarrow> w
      | Some p \<Rightarrow>
          storage_updateBot w (bot_id (data (insts w r))) (no_updates\<lparr>new_position := Some (Some p)\<rparr>))"

subsection \<open>Example states, and the notions that the properties use\<close>

text \<open>
  A record as \<^verbatim>\<open>MemStorage.createBot\<close> makes it, the process just after that record was
  created, and the process after \<^verbatim>\<open>startBot\<close> has run for it.
\<close>

definition bob :: bot_record where
  "bob = \<lparr> bot_id = ''b1'', name = ''Bob'', status = ''offline'', position = None,
     health = Some 20, food = Some 20, inventory = Some [], uptime = Some 0,
     createdAt = Some 0, lastConnected = None \<rparr>"

definition no_instance :: bot_instance where
  "no_instance = \<lparr> bot_client = new_client [], data = bob, startTime = 0,
     actionIntervals = [], continuousActions = {} \<rparr>"

definition world0 :: world where
  "world0 = \<lparr> bots = Map.empty, insts = (\<lambda>r. no_instance), next_ref = 0,
     storage = [''b1'' \<mapsto> bob], emitted = [], timers = Map.empty, next_handle = 0,
     clock = 0, createBot_error = None \<rparr>"

definition world1 :: world where
  "world1 = snd (startBot world0 bob)"

text \<open>
  The environment: the protocol client reports a position (or none), and then the pending
  position check fires. \<open>polls\<close> does this for a list of reports, starting with the check
  at handle \<open>h\<close>; each check that goes on sets the next handle.
\<close>

definition observe :: "world \<Rightarrow> nat \<Rightarrow> vec3 option \<Rightarrow> world" where
  "observe w r p =
     upd_client w r
       (\<lambda>c. c\<lparr>bot_entity :=
                 map_option (\<lambda>q. \<lparr>entity_position = Some q, yaw = 0, pitch = 0\<rparr>) p\<rparr>)"

fun polls :: "world \<Rightarrow> nat \<Rightarrow> nat \<Rightarrow> vec3 option list \<Rightarrow> world" where
  "polls w r h [] = w"
| "polls w r h (p # ps) = polls (fire (observe w r p) h) r (Suc h) ps"

definition poll_timer :: "nat \<Rightarrow> vec3 \<Rightarrow> string \<Rightarrow> real \<Rightarrow> timer" where
  "poll_timer r s c d = \<lparr>repeating = False, delay = 50, callback = CheckDistance r s c d\<rparr>"

text \<open>The running bot of \<open>world1\<close>, standing at the origin.\<close>

definition world2 :: world where
  "world2 = observe world1 0 (Some (Vec3 0 0 0))"

text \<open>
  The action that \<^verbatim>\<open>executeAction\<close> dispatches to \<^verbatim>\<open>handleAction\<close> with the
  action type \<open>kind\<close>: the six recurring kinds of \<^verbatim>\<open>BotAction\<close>.
\<close>

definition recurring :: "string \<Rightarrow> string \<Rightarrow> real option \<Rightarrow> action option" where
  "recurring kind mode interval =
     (if kind = ''mine'' then Some (MineAction mode interval)
      else if kind = ''attack'' then Some (AttackAction mode interval)
      else if kind = ''rightClick'' then Some (RightClickAction mode interval)
      else if kind = ''dropItem'' then Some (DropItemAction mode interval)
      else if kind = ''dropStack'' then Some (DropStackAction mode interval)
      else if kind = ''sprint'' then Some (SprintAction mode interval)
      else None)"

text \<open>
  The timers that run the behaviour of kind \<open>k\<close> for the session at \<open>r\<close>, and the state of
  a schedule that the registered handle accounts for: no timer sits at a handle that is
  still to be given out, the handle registered for \<open>k\<close> has been given out, and every timer
  that runs the behaviour of \<open>k\<close> is the one registered for \<open>k\<close>.
\<close>

definition kind_timers :: "world \<Rightarrow> nat \<Rightarrow> string \<Rightarrow> nat set" where
  "kind_timers w r k = {h. \<exists>t. timers w h = Some t \<and> callback t = ExecuteAction r k}"

definition schedule_ok :: "world \<Rightarrow> nat \<Rightarrow> string \<Rightarrow> bool" where
  "schedule_ok w r k \<longleftrightarrow>
     (\<forall>h\<ge>next_handle w. timers w h = None) \<and>
     (\<forall>h. map_of (actionIntervals (insts w r)) k = Some h \<longrightarrow> h < next_handle w) \<and>
     (\<forall>h\<in>kind_timers w r k. map_of (actionIntervals (insts w r)) k = Some h)"

text \<open>
  More example states: the bot of \<open>world2\<close> looking at a block (so that mining digs, and
  the first run of a continuous \<^verbatim>\<open>mine\<close> is awaited for as long as the dig takes), and
  the bot of \<open>world1\<close> mining every 40 ticks.
\<close>

definition world3 :: world where
  "world3 = upd_client world2 0 (\<lambda>c. c\<lparr>blockAtCursor := Some 7\<rparr>)"

definition world4 :: world where
  "world4 = snd (executeAction world1 ''b1'' (MineAction ''interval'' (Some 40)))"

text \<open>
  Two requests for continuous mining that overlap: the second starts while the first
  awaits its first dig, then the first installs its timer, then the second. After that, a
  request to stop mining, and then \<^verbatim>\<open>stopBot\<close>.
\<close>

definition overlap1 :: world where
  "overlap1 = snd (handleAction_start world3 0 ''mine'' ''continuous'' None)"

definition overlap2 :: world where
  "overlap2 = snd (handleAction_start overlap1 0 ''mine'' ''continuous'' None)"

definition overlap3 :: world where
  "overlap3 = handleAction_finish overlap2 (InstallContinuous 0 ''mine'')"

definition overlap4 :: world where
  "overlap4 = handleAction_finish overlap3 (InstallContinuous 0 ''mine'')"

definition overlap5 :: world where
  "overlap5 = snd (executeAction overlap4 ''b1'' (MineAction ''stop'' None))"

definition overlap6 :: world where
  "overlap6 = stopBot overlap5 ''b1''"

text \<open>
  The connection of the bot of \<open>world1\<close> closes (\<^verbatim>\<open>socketClosed\<close>); an operator
  starts the bot again while \<^verbatim>\<open>createBot\<close> throws; then the five-second timer fires.
  The record that the operator's request reads from the store is \<open>bob\<close> again, since the
  listener of \<^verbatim>\<open>end\<close> has set its status back to offline.
\<close>

definition dropped1 :: world where
  "dropped1 = on_end world1 0 ''socketClosed''"

definition dropped2 :: world where
  "dropped2 = snd (startBot (dropped1\<lparr>createBot_error := Some ''unsupported''\<rparr>) bob)"

definition dropped3 :: world where
  "dropped3 = fire dropped2 0"

text \<open>
  The client of the bot of \<open>world1\<close> reports a chat format error, and then its connection
  closes; an operator starts the bot again; then the five-second timer fires.
\<close>

definition chat1 :: world where
  "chat1 = on_error world1 0 ''unknown chat format code: z''"

definition chat2 :: world where
  "chat2 = on_end chat1 0 ''socketClosed''"

definition chat3 :: world where
  "chat3 = snd (startBot chat2 bob)"

definition chat4 :: world where
  "chat4 = fire chat3 0"

text \<open>
  The bot of \<open>world1\<close> is started again while it runs; then the client of the old session
  reports the end that its \<^verbatim>\<open>quit\<close> brought about; then an operator starts the bot
  once more.
\<close>

definition restart1 :: world where
  "restart1 = snd (startBot world1 bob)"

definition restart2 :: world where
  "restart2 = on_end restart1 0 ''disconnect.quitting''"

definition restart3 :: world where
  "restart3 = snd (startBot restart2 bob)"

text \<open>
  The bot of \<open>world2\<close> is started again while a move of 3 blocks is under way, and the
  bot of \<open>overlap4\<close> is started again.
\<close>

definition moving1 :: world where
  "moving1 = snd (executeAction world2 ''b1'' (MoveAction ''forward'' (Blocks 3)))"

definition moving2 :: world where
  "moving2 = snd (startBot moving1 bob)"

definition overlap7 :: world where
  "overlap7 = snd (startBot overlap4 bob)"

text \<open>
  Whatever may happen to the process: a timer fires, a client reports an event, the
  observable state of a client changes, \<^verbatim>\<open>createBot\<close> starts or stops throwing, time
  passes, or a caller starts a bot, stops one or requests an action; a request for a
  recurring kind may also run up to its \<^verbatim>\<open>await\<close> only, and go on later.
  \<open>asks_for\<close> singles out the steps that run \<^verbatim>\<open>handleAction\<close>, or the rest of it, for
  the session at \<open>r\<close> and the kind \<open>k\<close>; a run is quiet for \<open>r\<close> and \<open>k\<close> when none of
  its steps does.
\<close>

datatype step =
    TimerFires nat
  | ClientSpawns nat
  | ClientErrors nat string
  | ClientEnds nat string
  | ClientDies nat
  | ClientHealth nat
  | ClientMoves nat
  | ClientChanges nat "client \<Rightarrow> client"
  | CreateBotThrows "string option"
  | ClockTicks nat
  | Starts bot_record
  | Stops string
  | Requests string action
  | Suspends nat string string "real option"
  | Resumes pending

definition apply_step :: "world \<Rightarrow> step \<Rightarrow> world" where
  "apply_step w s =
     (case s of
        TimerFires h \<Rightarrow> fire w h
      | ClientSpawns r \<Rightarrow> on_spawn w r
      | ClientErrors r message \<Rightarrow> on_error w r message
      | ClientEnds r reason \<Rightarrow> on_end w r reason
      | ClientDies r \<Rightarrow> on_death w r
      | ClientHealth r \<Rightarrow> on_health w r
      | ClientMoves r \<Rightarrow> on_move w r
      | ClientChanges r f \<Rightarrow> upd_client w r f
      | CreateBotThrows e \<Rightarrow> w\<lparr>createBot_error := e\<rparr>
      | ClockTicks n \<Rightarrow> w\<lparr>clock := clock w + n\<rparr>
      | Starts botData \<Rightarrow> snd (startBot w botData)
      | Stops botId \<Rightarrow> stopBot w botId
      | Requests botId act \<Rightarrow> snd (executeAction w botId act)
      | Suspends r actionType mode interval \<Rightarrow>
          snd (handleAction_start w r actionType mode interval)
      | Resumes p \<Rightarrow> handleAction_finish w p)"


fun run :: "world \<Rightarrow> step list \<Rightarrow> world" where
  "run w [] = w"
| "run w (s # ss) = run (apply_step w s) ss"







text \<open>
  \<^verbatim>\<open>startBot\<close> is suspended at each \<^verbatim>\<open>await\<close>: inside \<^verbatim>\<open>stopBot\<close> after the
  store was written, again until \<^verbatim>\<open>stopBot\<close> has returned, and after the status was set
  to connecting. These promises are resolved at once, so only calls made in the same turn
  of the event loop come in between. \<open>startBot_start\<close> is the call up to its first
  suspension, with what is left to do; \<open>startBot_resume\<close> goes on to the next suspension
  or to the end. A call that nothing interrupts is \<open>startBot\<close>.
\<close>

datatype start_pending = EmitOffline | SetConnecting | CreateClient

definition stopBot_start :: "world \<Rightarrow> string \<Rightarrow> world" where
  "stopBot_start w botId =
     (case bots w botId of
        None \<Rightarrow> w
      | Some r \<Rightarrow>
          (let w1 = clearIntervals w (map snd (actionIntervals (insts w r)));
               w2 = upd_inst w1 r (\<lambda>i. i\<lparr>actionIntervals := [], continuousActions := {}\<rparr>);
               w3 = upd_client w2 r (\<lambda>c. c\<lparr>quit_called := True\<rparr>);
               w4 = w3\<lparr>bots := (bots w3)(botId := None)\<rparr>
           in storage_updateBot w4 botId (only_status ''offline'')))"

definition startBot_start :: "world \<Rightarrow> bot_record \<Rightarrow> start_pending \<times> world" where
  "startBot_start w botData =
     (if bots w (bot_id botData) \<noteq> None
      then (EmitOffline, stopBot_start w (bot_id botData))
      else (CreateClient,
            storage_updateBot w (bot_id botData) (only_status ''connecting'')))"

definition startBot_resume ::
  "world \<Rightarrow> bot_record \<Rightarrow> start_pending \<Rightarrow> (start_pending + (error + unit)) \<times> world" where
  "startBot_resume w botData p =
     (case p of
        EmitOffline \<Rightarrow>
          (Inl SetConnecting, emit w (StatusChange (bot_id botData) ''offline'' None))
      | SetConnecting \<Rightarrow>
          (Inl CreateClient,
           storage_updateBot w (bot_id botData) (only_status ''connecting''))
      | CreateClient \<Rightarrow>
          (let w2 = emit w (StatusChange (bot_id botData) ''connecting'' None)
           in case createBot_error w2 of
                Some msg \<Rightarrow>
                  (let w3 = storage_updateBot w2 (bot_id botData) (only_status ''error'');
                       w4 = emit w3
                              (ErrorEvent (bot_id botData) (''Failed to start bot: '' @ msg))
                   in (Inr (Inl (ConnectionFailed msg)), w4))
              | None \<Rightarrow>
                  (let r = next_ref w2;
                       botInstance = \<lparr> bot_client = new_client (name botData),
                         data = botData, startTime = clock w2, actionIntervals = [],
                         continuousActions = {} \<rparr>
                   in (Inr (Inr ()),
                       w2\<lparr>insts := (insts w2)(r := botInstance), next_ref := Suc r,
                          bots := (bots w2)(bot_id botData \<mapsto> r)\<rparr>))))"

text \<open>Two calls for the bot of \<open>world0\<close>, which does not run, made in the same turn.\<close>

definition twice1 :: world where
  "twice1 = snd (startBot_start world0 bob)"

definition twice2 :: world where
  "twice2 = snd (startBot_start twice1 bob)"

definition twice3 :: world where
  "twice3 = snd (startBot_resume twice2 bob CreateClient)"

definition twice4 :: world where
  "twice4 = snd (startBot_resume twice3 bob CreateClient)"

section \<open>Properties\<close>

subsection \<open>What each primitive effect leaves alone\<close>

lemma upd_inst_fields [simp]:
  "bots (upd_inst w r f) = bots w"
  "insts (upd_inst w r f) = (insts w)(r := f (insts w r))"
  "next_ref (upd_inst w r f) = next_ref w"
  "storage (upd_inst w r f) = storage w"
  "emitted (upd_inst w r f) = emitted w"
  "timers (upd_inst w r f) = timers w"
  "next_handle (upd_inst w r f) = next_handle w"
  "clock (upd_inst w r f) = clock w"
  "createBot_error (upd_inst w r f) = createBot_error w"
  by (simp_all add: upd_inst_def)

lemma upd_client_fields [simp]:
  "bots (upd_client w r f) = bots w"
  "insts (upd_client w r f) =
     (insts w)(r := (insts w r)\<lparr>bot_client := f (bot_client (insts w r))\<rparr>)"
  "next_ref (upd_client w r f) = next_ref w"
  "storage (upd_client w r f) = storage w"
  "emitted (upd_client w r f) = emitted w"
  "timers (upd_client w r f) = timers w"
  "next_handle (upd_client w r f) = next_handle w"
  "clock (upd_client w r f) = clock w"
  "createBot_error (upd_client w r f) = createBot_error w"
  by (simp_all add: upd_client_def)

lemma setControlState_fields [simp]:
  "bots (setControlState w r n v) = bots w"
  "next_ref (setControlState w r n v) = next_ref w"
  "storage (setControlState w r n v) = storage w"
  "emitted (setControlState w r n v) = emitted w"
  "timers (setControlState w r n v) = timers w"
  "next_handle (setControlState w r n v) = next_handle w"
  "clock (setControlState w r n v) = clock w"
  "createBot_error (setControlState w r n v) = createBot_error w"
  by (simp_all add: setControlState_def)

lemma issue_fields [simp]:
  "bots (issue w r c) = bots w"
  "next_ref (issue w r c) = next_ref w"
  "storage (issue w r c) = storage w"
  "emitted (issue w r c) = emitted w"
  "timers (issue w r c) = timers w"
  "next_handle (issue w r c) = next_handle w"
  "clock (issue w r c) = clock w"
  "createBot_error (issue w r c) = createBot_error w"
  by (simp_all add: issue_def)

lemma schedule_fields [simp]:
  "fst (schedule w rep ms cb) = next_handle w"
  "bots (snd (schedule w rep ms cb)) = bots w"
  "insts (snd (schedule w rep ms cb)) = insts w"
  "next_ref (snd (schedule w rep ms cb)) = next_ref w"
  "storage (snd (schedule w rep ms cb)) = storage w"
  "emitted (snd (schedule w rep ms cb)) = emitted w"
  "timers (snd (schedule w rep ms cb)) =
     (timers w)(next_handle w \<mapsto> \<lparr>repeating = rep, delay = ms, callback = cb\<rparr>)"
  "next_handle (snd (schedule w rep ms cb)) = Suc (next_handle w)"
  "clock (snd (schedule w rep ms cb)) = clock w"
  "createBot_error (snd (schedule w rep ms cb)) = createBot_error w"
  by (simp_all add: schedule_def)

lemma clearInterval_fields [simp]:
  "bots (clearInterval w h) = bots w"
  "insts (clearInterval w h) = insts w"
  "next_ref (clearInterval w h) = next_ref w"
  "storage (clearInterval w h) = storage w"
  "emitted (clearInterval w h) = emitted w"
  "timers (clearInterval w h) = (timers w)(h := None)"
  "next_handle (clearInterval w h) = next_handle w"
  "clock (clearInterval w h) = clock w"
  "createBot_error (clearInterval w h) = createBot_error w"
  by (simp_all add: clearInterval_def)

lemma clearIntervals_fields [simp]:
  "bots (clearIntervals w hs) = bots w"
  "insts (clearIntervals w hs) = insts w"
  "next_ref (clearIntervals w hs) = next_ref w"
  "storage (clearIntervals w hs) = storage w"
  "emitted (clearIntervals w hs) = emitted w"
  "next_handle (clearIntervals w hs) = next_handle w"
  "clock (clearIntervals w hs) = clock w"
  "createBot_error (clearIntervals w hs) = createBot_error w"
  by (induction hs arbitrary: w; simp)+

lemma clearIntervals_timers:
  "timers (clearIntervals w hs) h = (if h \<in> set hs then None else timers w h)"
  by (induction hs arbitrary: w) auto

lemma storage_updateBot_fields [simp]:
  "bots (storage_updateBot w i u) = bots w"
  "insts (storage_updateBot w i u) = insts w"
  "next_ref (storage_updateBot w i u) = next_ref w"
  "storage (storage_updateBot w i u) = snd (updateBot (storage w) i u)"
  "emitted (storage_updateBot w i u) = emitted w"
  "timers (storage_updateBot w i u) = timers w"
  "next_handle (storage_updateBot w i u) = next_handle w"
  "clock (storage_updateBot w i u) = clock w"
  "createBot_error (storage_updateBot w i u) = createBot_error w"
  by (simp_all add: storage_updateBot_def)

lemma emit_fields [simp]:
  "bots (emit w e) = bots w"
  "insts (emit w e) = insts w"
  "next_ref (emit w e) = next_ref w"
  "storage (emit w e) = storage w"
  "emitted (emit w e) = emitted w @ [e]"
  "timers (emit w e) = timers w"
  "next_handle (emit w e) = next_handle w"
  "clock (emit w e) = clock w"
  "createBot_error (emit w e) = createBot_error w"
  by (simp_all add: emit_def)

subsection \<open>Operations on a bot that is not running\<close>

text \<open>
  C5. \<^verbatim>\<open>stopBot\<close> for an identifier that the registry does not hold returns normally
  (the function has no error result) and returns the state it was given: the registry,
  the store, the events, the timers and every client are what they were.
\<close>

theorem stopBot_no_session_noop:
  "bots w botId = None \<Longrightarrow> stopBot w botId = w"
  by (simp add: stopBot_def)

theorem stopBot_no_session_noop_witness:
  "bots world0 ''b1'' = None \<and> stopBot world0 ''b1'' = world0"
  using stopBot_no_session_noop [of world0 "''b1''"] by (simp add: world0_def)

text \<open>
  C4. \<^verbatim>\<open>executeAction\<close> for an identifier that the registry does not hold fails with
  \<open>NotRunning\<close>, whatever the action, and returns the state it was given: no field of a
  stored record is written, no event is emitted and no control flag is set.
\<close>

theorem executeAction_not_running:
  "bots w botId = None \<Longrightarrow> executeAction w botId act = (Inl NotRunning, w)"
  by (simp add: executeAction_def)

theorem executeAction_not_running_witness:
  "bots world0 ''b1'' = None \<and>
   executeAction world0 ''b1'' (MineAction ''continuous'' None) = (Inl NotRunning, world0)"
  using executeAction_not_running [of world0 "''b1''" "MineAction ''continuous'' None"]
  by (simp add: world0_def)

subsection \<open>The store\<close>

text \<open>
  C10. \<^verbatim>\<open>MemStorage.updateBot\<close> on an identifier that the store does not hold returns
  nothing and the same store. On an identifier that it holds, it returns and stores under
  that identifier a record in which each field has the supplied value when the update
  supplies one and its prior value otherwise, and the record of every other identifier is
  what it was.
\<close>

theorem updateBot_frame:
  "(s i = None \<longrightarrow> updateBot s i u = (None, s)) \<and>
   (\<forall>b. s i = Some b \<longrightarrow>
      (\<exists>b'. updateBot s i u = (Some b', s(i \<mapsto> b')) \<and>
         bot_id b' = (case new_id u of None \<Rightarrow> bot_id b | Some v \<Rightarrow> v) \<and>
         name b' = (case new_name u of None \<Rightarrow> name b | Some v \<Rightarrow> v) \<and>
         status b' = (case new_status u of None \<Rightarrow> status b | Some v \<Rightarrow> v) \<and>
         position b' = (case new_position u of None \<Rightarrow> position b | Some v \<Rightarrow> v) \<and>
         health b' = (case new_health u of None \<Rightarrow> health b | Some v \<Rightarrow> v) \<and>
         food b' = (case new_food u of None \<Rightarrow> food b | Some v \<Rightarrow> v) \<and>
         inventory b' = (case new_inventory u of None \<Rightarrow> inventory b | Some v \<Rightarrow> v) \<and>
         uptime b' = (case new_uptime u of None \<Rightarrow> uptime b | Some v \<Rightarrow> v) \<and>
         createdAt b' = (case new_createdAt u of None \<Rightarrow> createdAt b | Some v \<Rightarrow> v) \<and>
         lastConnected b' =
           (case new_lastConnected u of None \<Rightarrow> lastConnected b | Some v \<Rightarrow> v)) \<and>
      (\<forall>k. k \<noteq> i \<longrightarrow> snd (updateBot s i u) k = s k))"
  by (simp add: updateBot_def spread_def supplied_def Let_def)

theorem updateBot_frame_witness:
  "storage world0 ''b1'' = Some bob \<and> storage world0 ''b2'' = None \<and>
   updateBot (storage world0) ''b2'' (only_status ''online'') = (None, storage world0) \<and>
   fst (updateBot (storage world0) ''b1'' (only_status ''online'')) =
     Some (bob\<lparr>status := ''online''\<rparr>) \<and>
   snd (updateBot (storage world0) ''b1'' (only_status ''online'')) ''b2'' = None"
  using updateBot_frame [of "storage world0" "''b1''" "only_status ''online''"]
    updateBot_frame [of "storage world0" "''b2''" "only_status ''online''"]
  by (auto simp add: world0_def only_status_def no_updates_def bob_def)

subsection \<open>The example states, evaluated\<close>

lemma world1_eq:
  "world1 = \<lparr> bots = [''b1'' \<mapsto> 0],
      insts = (\<lambda>r. no_instance)(0 := \<lparr> bot_client = new_client ''Bob'', data = bob,
                 startTime = 0, actionIntervals = [], continuousActions = {} \<rparr>),
      next_ref = Suc 0, storage = [''b1'' \<mapsto> bob\<lparr>status := ''connecting''\<rparr>],
      emitted = [StatusChange ''b1'' ''connecting'' None], timers = Map.empty, next_handle = 0,
      clock = 0, createBot_error = None \<rparr>"
  by (simp add: world1_def startBot_def world0_def Let_def bob_def only_status_def no_updates_def
      storage_updateBot_def updateBot_def spread_def supplied_def emit_def)

lemma observe_fields [simp]:
  "bots (observe w r p) = bots w"
  "next_ref (observe w r p) = next_ref w"
  "storage (observe w r p) = storage w"
  "emitted (observe w r p) = emitted w"
  "timers (observe w r p) = timers w"
  "next_handle (observe w r p) = next_handle w"
  "clock (observe w r p) = clock w"
  "createBot_error (observe w r p) = createBot_error w"
  "entity_pos (bot_client (insts (observe w r p) r)) = p"
  "controlState (bot_client (insts (observe w r p) r')) = controlState (bot_client (insts w r'))"
  by (cases p; simp add: observe_def entity_pos_def)+

lemma world2_fields:
  "bots world2 = [''b1'' \<mapsto> 0]"
  "timers world2 = Map.empty"
  "next_handle world2 = 0"
  "entity_pos (bot_client (insts world2 0)) = Some (Vec3 0 0 0)"
  by (simp_all add: world2_def world1_eq)

subsection \<open>Looking at a point\<close>

lemma issue_commands:
  "commands (bot_client (insts (issue w r c) r)) = commands (bot_client (insts w r)) @ [c]"
  by (simp add: issue_def)

text \<open>
  C6, as the claim states it, fails: the guard of \<^verbatim>\<open>handleLookAt\<close> tests the run-time
  type of the coordinates, and \<^verbatim>\<open>Infinity\<close> and \<^verbatim>\<open>NaN\<close> have type
  \<^verbatim>\<open>'number'\<close>. For the running bot of \<open>world1\<close> and the target
  \<open>(Infinity, 0, 0)\<close>, whose first coordinate is not finite, the call succeeds and issues
  the command.
\<close>

theorem lookAt_infinite_accepted:
  "\<not> is_finite (JNumber PosInfinity) \<and>
   executeAction world1 ''b1''
     (LookAtAction (Some (Coordinates (JNumber PosInfinity) (JNumber (Finite 0))
        (JNumber (Finite 0))))) =
   (Inr (), issue world1 0
      (CmdLookAt (JNumber PosInfinity) (JNumber (Finite 0)) (JNumber (Finite 0))))"
  by (simp add: executeAction_def handleLookAt_def world1_eq)

text \<open>
  C6, amended. For a running bot, \<^verbatim>\<open>lookAt\<close> fails with \<open>InvalidCoordinates\<close> exactly
  when the coordinates are missing or one of the three does not have the run-time type
  \<^verbatim>\<open>'number'\<close>, and then it changes nothing. When all three are numbers, finite or not,
  it succeeds, and its whole effect is one \<open>CmdLookAt\<close> command with these coordinates
  appended to the commands of the bot.
\<close>

theorem lookAt_invalid_iff_not_number:
  assumes "bots w botId = Some r"
  shows "(fst (executeAction w botId (LookAtAction coords)) = Inl InvalidCoordinates \<longleftrightarrow>
           (coords = None \<or>
            (\<exists>cx cy cz. coords = Some (Coordinates cx cy cz) \<and>
               (typeof cx \<noteq> ''number'' \<or> typeof cy \<noteq> ''number'' \<or>
                typeof cz \<noteq> ''number'')))) \<and>
         (fst (executeAction w botId (LookAtAction coords)) = Inl InvalidCoordinates \<longrightarrow>
            snd (executeAction w botId (LookAtAction coords)) = w) \<and>
         (\<forall>cx cy cz. coords = Some (Coordinates cx cy cz) \<and>
             typeof cx = ''number'' \<and> typeof cy = ''number'' \<and> typeof cz = ''number'' \<longrightarrow>
             executeAction w botId (LookAtAction coords) =
               (Inr (), issue w r (CmdLookAt cx cy cz)) \<and>
             commands (bot_client (insts (issue w r (CmdLookAt cx cy cz)) r)) =
               commands (bot_client (insts w r)) @ [CmdLookAt cx cy cz])"
proof (cases coords)
  case None
  with assms show ?thesis by (simp add: executeAction_def handleLookAt_def)
next
  case (Some c)
  obtain cx cy cz where c: "c = Coordinates cx cy cz" by (cases c)
  with assms Some show ?thesis
    by (simp add: executeAction_def handleLookAt_def issue_commands)
qed

theorem lookAt_invalid_iff_not_number_witness:
  "bots world1 ''b1'' = Some 0 \<and>
   fst (executeAction world1 ''b1''
     (LookAtAction (Some (Coordinates (JNumber NaN) (JString ''7'') (JNumber (Finite 2)))))) =
     Inl InvalidCoordinates \<and>
   commands (bot_client (insts (snd (executeAction world1 ''b1''
       (LookAtAction (Some (Coordinates (JNumber NaN) (JNumber (Finite 1))
          (JNumber (Finite 2))))))) 0)) =
     [CmdLookAt (JNumber NaN) (JNumber (Finite 1)) (JNumber (Finite 2))]"
  using lookAt_invalid_iff_not_number [of world1 "''b1''" 0
      "Some (Coordinates (JNumber NaN) (JString ''7'') (JNumber (Finite 2)))"]
    lookAt_invalid_iff_not_number [of world1 "''b1''" 0
      "Some (Coordinates (JNumber NaN) (JNumber (Finite 1)) (JNumber (Finite 2)))"]
  by (simp add: world1_eq new_client_def)

subsection \<open>Moving a number of blocks\<close>

lemma setControlState_flag [simp]:
  "controlState (bot_client (insts (setControlState w r c v) r)) =
     (controlState (bot_client (insts w r)))(c := v)"
  "entity_pos (bot_client (insts (setControlState w r c v) r')) =
     entity_pos (bot_client (insts w r'))"
  by (simp_all add: setControlState_def entity_pos_def)

lemma distanceTo_nonneg: "0 \<le> distanceTo a b"
  by (cases a; cases b) simp

lemma fire_poll_continue:
  assumes "timers w h = Some (poll_timer r s c d)" and "next_handle w = Suc h"
    and "distanceTo s q < d"
  shows "timers (fire (observe w r (Some q)) h) =
           (timers w)(h := None, Suc h \<mapsto> poll_timer r s c d)"
    and "next_handle (fire (observe w r (Some q)) h) = Suc (Suc h)"
    and "controlState (bot_client (insts (fire (observe w r (Some q)) h) r)) =
         controlState (bot_client (insts w r))"
  using assms
  by (simp_all add: fire_def run_callback_def checkDistance_def poll_timer_def setTimeout_def
      entity_pos_def observe_def)

lemma fire_poll_stop:
  assumes "timers w h = Some (poll_timer r s c d)"
    and "p = None \<or> (\<exists>q. p = Some q \<and> distanceTo s q \<ge> d)"
  shows "timers (fire (observe w r p) h) = (timers w)(h := None)"
    and "\<not> controlState (bot_client (insts (fire (observe w r p) h) r)) c"
  using assms
  by (auto simp add: fire_def run_callback_def checkDistance_def poll_timer_def)

lemma polls_snoc: "polls w r h (ps @ [p]) = fire (observe (polls w r h ps) r p) (h + length ps)"
  by (induction ps arbitrary: w h) simp_all

lemma polls_continue:
  assumes "\<forall>p\<in>set ps. \<exists>q. p = Some q \<and> distanceTo s q < d"
    and "timers w = T(h \<mapsto> poll_timer r s c d)" and "next_handle w = Suc h"
    and "\<forall>h'\<ge>h. T h' = None"
  shows "timers (polls w r h ps) = T(h + length ps \<mapsto> poll_timer r s c d) \<and>
         next_handle (polls w r h ps) = Suc (h + length ps) \<and>
         controlState (bot_client (insts (polls w r h ps) r)) =
           controlState (bot_client (insts w r))"
  using assms
proof (induction ps arbitrary: w h)
  case Nil
  then show ?case by simp
next
  case (Cons p ps)
  from Cons.prems(1) obtain q where q: "p = Some q" "distanceTo s q < d" by auto
  let ?w = "fire (observe w r p) h"
  have tm: "timers w h = Some (poll_timer r s c d)" using Cons.prems(2) by simp
  have T: "T h = None" using Cons.prems(4) by simp
  have 1: "timers ?w = T(Suc h \<mapsto> poll_timer r s c d)"
    using fire_poll_continue(1)[OF tm Cons.prems(3) q(2)] q(1) Cons.prems(2) T
    by (auto simp add: fun_eq_iff)
  have 2: "next_handle ?w = Suc (Suc h)"
    using fire_poll_continue(2)[OF tm Cons.prems(3) q(2)] q(1) by simp
  have 3: "controlState (bot_client (insts ?w r)) = controlState (bot_client (insts w r))"
    using fire_poll_continue(3)[OF tm Cons.prems(3) q(2)] q(1) by simp
  have 4: "\<forall>h'\<ge>Suc h. T h' = None" using Cons.prems(4) by simp
  have 5: "\<forall>p\<in>set ps. \<exists>q. p = Some q \<and> distanceTo s q < d" using Cons.prems(1) by simp
  from Cons.IH[OF 5 1 2 4] 3 show ?case by simp
qed

lemma move_blocks_start:
  assumes "bots w botId = Some r" and "entity_pos (bot_client (insts w r)) = Some s"
  shows "executeAction w botId (MoveAction direction (Blocks d)) =
     (Inr (), snd (setTimeout (setControlState w r (controlStateOf direction) True)
                     (CheckDistance r s (controlStateOf direction) d) 50))"
  using assms by (simp add: executeAction_def handleMovement_def Let_def)

text \<open>
  C7, as the claim states it, fails twice. First, \<^verbatim>\<open>handleMovement\<close> tests that the
  client has a position before it does anything: the bot of \<open>world1\<close> is running and has
  not spawned, so it has none, and the move fails with \<open>EntityUnavailable\<close>; the flag is
  not set and no position check is scheduled. Second, the flag can be held for ever: the
  bot of \<open>world2\<close> stands at the origin, and while it stays there a move of 3 blocks
  finds, at every check, a valid position with displacement 0; after any number \<open>n\<close> of
  checks the flag is still set and the next check is pending.
\<close>

theorem move_fails_or_never_ends:
  "entity_pos (bot_client (insts world1 0)) = None \<and>
   executeAction world1 ''b1'' (MoveAction ''forward'' (Blocks 3)) =
     (Inl EntityUnavailable, world1) \<and>
   \<not> controlState (bot_client (insts world1 0)) ''forward'' \<and>
   timers world1 = Map.empty \<and>
   (\<forall>n. controlState (bot_client (insts
           (polls (snd (executeAction world2 ''b1'' (MoveAction ''forward'' (Blocks 3)))) 0 0
              (replicate n (Some (Vec3 0 0 0)))) 0)) ''forward'' \<and>
        timers (polls (snd (executeAction world2 ''b1'' (MoveAction ''forward'' (Blocks 3)))) 0 0
              (replicate n (Some (Vec3 0 0 0)))) n =
          Some (poll_timer 0 (Vec3 0 0 0) ''forward'' 3))"
proof -
  define w1 where "w1 = snd (executeAction world2 ''b1'' (MoveAction ''forward'' (Blocks 3)))"
  have e: "executeAction world2 ''b1'' (MoveAction ''forward'' (Blocks 3)) =
      (Inr (), snd (setTimeout (setControlState world2 0 ''forward'' True)
                      (CheckDistance 0 (Vec3 0 0 0) ''forward'' 3) 50))"
    using move_blocks_start[of world2 "''b1''" 0 "Vec3 0 0 0" "''forward''" 3]
    by (simp add: world2_fields controlStateOf_def)
  have tm: "timers w1 = Map.empty(0 \<mapsto> poll_timer 0 (Vec3 0 0 0) ''forward'' 3)"
    by (simp add: w1_def e setTimeout_def poll_timer_def world2_fields)
  have nh: "next_handle w1 = Suc 0"
    by (simp add: w1_def e setTimeout_def world2_fields)
  have fl: "controlState (bot_client (insts w1 0)) ''forward''"
    by (simp add: w1_def e setTimeout_def)
  have still: "controlState (bot_client (insts (polls w1 0 0 (replicate n (Some (Vec3 0 0 0)))) 0))
                 ''forward'' \<and>
               timers (polls w1 0 0 (replicate n (Some (Vec3 0 0 0)))) n =
                 Some (poll_timer 0 (Vec3 0 0 0) ''forward'' 3)" for n
  proof -
    have ps: "\<forall>p\<in>set (replicate n (Some (Vec3 0 0 0))).
                \<exists>q. p = Some q \<and> distanceTo (Vec3 0 0 0) q < 3"
      by simp
    from polls_continue[OF ps tm nh] fl show ?thesis by simp
  qed
  have start: "entity_pos (bot_client (insts world1 0)) = None \<and>
     executeAction world1 ''b1'' (MoveAction ''forward'' (Blocks 3)) =
       (Inl EntityUnavailable, world1) \<and>
     \<not> controlState (bot_client (insts world1 0)) ''forward'' \<and>
     timers world1 = Map.empty"
    by (simp add: executeAction_def handleMovement_def world1_eq entity_pos_def new_client_def)
  from start still show ?thesis unfolding w1_def by blast
qed

text \<open>
  C7, amended. Let a bot be running, and let no timer sit at a handle that is still to be
  given out. If the client has no position when the move is requested, the move fails with
  \<open>EntityUnavailable\<close> and changes nothing. If it has the position \<open>s\<close>, the move succeeds,
  sets the flag of the direction, and sets one timeout of 50 ms for a position check that
  carries \<open>s\<close> and the distance \<open>d\<close>. Then, for every run of position reports that are all
  valid and all nearer to \<open>s\<close> than \<open>d\<close>, the flag is still set after the run and one check
  of the same kind is pending, 50 ms ahead (so the flag stays set for as long as such
  reports go on: there is no time limit); and at the first report after the run that is
  no position, or a position at distance \<open>d\<close> or more from \<open>s\<close>, the flag is cleared and
  no check is pending any more. For \<open>d \<le> 0\<close> the first check clears the flag, whatever is
  reported.
\<close>

theorem move_blocks_polling:
  assumes "bots w botId = Some r" and "\<forall>h\<ge>next_handle w. timers w h = None"
  shows "(entity_pos (bot_client (insts w r)) = None \<longrightarrow>
            executeAction w botId (MoveAction direction (Blocks d)) =
              (Inl EntityUnavailable, w)) \<and>
         (\<forall>s. entity_pos (bot_client (insts w r)) = Some s \<longrightarrow>
            (let w1 = snd (executeAction w botId (MoveAction direction (Blocks d)));
                 c = controlStateOf direction;
                 h = next_handle w;
                 poll = \<lparr>repeating = False, delay = 50, callback = CheckDistance r s c d\<rparr>
             in fst (executeAction w botId (MoveAction direction (Blocks d))) = Inr () \<and>
                controlState (bot_client (insts w1 r)) c \<and>
                timers w1 = (timers w)(h \<mapsto> poll) \<and>
                (\<forall>ps. (\<forall>p\<in>set ps. \<exists>q. p = Some q \<and> distanceTo s q < d) \<longrightarrow>
                   controlState (bot_client (insts (polls w1 r h ps) r)) c \<and>
                   timers (polls w1 r h ps) = (timers w)(h + length ps \<mapsto> poll) \<and>
                   (\<forall>p. p = None \<or> (\<exists>q. p = Some q \<and> d \<le> distanceTo s q) \<longrightarrow>
                      \<not> controlState (bot_client (insts (polls w1 r h (ps @ [p])) r)) c \<and>
                      timers (polls w1 r h (ps @ [p])) = timers w)) \<and>
                (d \<le> 0 \<longrightarrow>
                   (\<forall>p. \<not> controlState (bot_client (insts (polls w1 r h [p]) r)) c))))"
proof (intro conjI impI allI)
  assume "entity_pos (bot_client (insts w r)) = None"
  with assms(1)
  show "executeAction w botId (MoveAction direction (Blocks d)) = (Inl EntityUnavailable, w)"
    by (simp add: executeAction_def handleMovement_def)
next
  fix s assume s: "entity_pos (bot_client (insts w r)) = Some s"
  define c where "c = controlStateOf direction"
  define h where "h = next_handle w"
  define w1 where
    "w1 = snd (setTimeout (setControlState w r c True) (CheckDistance r s c d) 50)"
  have ex: "executeAction w botId (MoveAction direction (Blocks d)) = (Inr (), w1)"
    using move_blocks_start[OF assms(1) s] by (simp add: w1_def c_def)
  have tm: "timers w1 = (timers w)(h \<mapsto> poll_timer r s c d)"
    by (simp add: w1_def setTimeout_def poll_timer_def h_def)
  have nh: "next_handle w1 = Suc h" by (simp add: w1_def setTimeout_def h_def)
  have fl: "controlState (bot_client (insts w1 r)) c" by (simp add: w1_def setTimeout_def)
  have fresh: "\<forall>h'\<ge>h. timers w h' = None" using assms(2) by (simp add: h_def)
  have run: "controlState (bot_client (insts (polls w1 r h ps) r)) c \<and>
             timers (polls w1 r h ps) = (timers w)(h + length ps \<mapsto> poll_timer r s c d) \<and>
             (\<forall>p. p = None \<or> (\<exists>q. p = Some q \<and> d \<le> distanceTo s q) \<longrightarrow>
                \<not> controlState (bot_client (insts (polls w1 r h (ps @ [p])) r)) c \<and>
                timers (polls w1 r h (ps @ [p])) = timers w)"
    if ps: "\<forall>p\<in>set ps. \<exists>q. p = Some q \<and> distanceTo s q < d" for ps
  proof -
    note pc = polls_continue[OF ps tm nh fresh]
    have pending: "timers (polls w1 r h ps) (h + length ps) = Some (poll_timer r s c d)"
      using pc by simp
    have last: "\<not> controlState (bot_client (insts (polls w1 r h (ps @ [p])) r)) c \<and>
                timers (polls w1 r h (ps @ [p])) = timers w"
      if p: "p = None \<or> (\<exists>q. p = Some q \<and> d \<le> distanceTo s q)" for p
    proof -
      have "timers (polls w1 r h (ps @ [p])) =
              (timers (polls w1 r h ps))(h + length ps := None)"
        using fire_poll_stop(1)[OF pending p] by (simp add: polls_snoc)
      also have "\<dots> = timers w" using pc fresh by (auto simp add: fun_eq_iff)
      finally show ?thesis using fire_poll_stop(2)[OF pending p] by (simp add: polls_snoc)
    qed
    from pc fl last show ?thesis by simp
  qed
  have zero: "\<not> controlState (bot_client (insts (polls w1 r h [p]) r)) c" if "d \<le> 0" for p
  proof -
    have "p = None \<or> (\<exists>q. p = Some q \<and> d \<le> distanceTo s q)"
      using that distanceTo_nonneg[of s] by (cases p) (auto intro: order_trans)
    with run[of "[]"] show ?thesis by auto
  qed
  show "let w1 = snd (executeAction w botId (MoveAction direction (Blocks d)));
            c = controlStateOf direction;
            h = next_handle w;
            poll = \<lparr>repeating = False, delay = 50, callback = CheckDistance r s c d\<rparr>
        in fst (executeAction w botId (MoveAction direction (Blocks d))) = Inr () \<and>
           controlState (bot_client (insts w1 r)) c \<and>
           timers w1 = (timers w)(h \<mapsto> poll) \<and>
           (\<forall>ps. (\<forall>p\<in>set ps. \<exists>q. p = Some q \<and> distanceTo s q < d) \<longrightarrow>
              controlState (bot_client (insts (polls w1 r h ps) r)) c \<and>
              timers (polls w1 r h ps) = (timers w)(h + length ps \<mapsto> poll) \<and>
              (\<forall>p. p = None \<or> (\<exists>q. p = Some q \<and> d \<le> distanceTo s q) \<longrightarrow>
                 \<not> controlState (bot_client (insts (polls w1 r h (ps @ [p])) r)) c \<and>
                 timers (polls w1 r h (ps @ [p])) = timers w)) \<and>
           (d \<le> 0 \<longrightarrow> (\<forall>p. \<not> controlState (bot_client (insts (polls w1 r h [p]) r)) c))"
    unfolding Let_def ex fst_conv snd_conv
    using fl tm run zero
    by (simp add: c_def[symmetric] h_def[symmetric] poll_timer_def[symmetric])
qed

theorem move_blocks_polling_witness:
  "bots world2 ''b1'' = Some 0 \<and> timers world2 = Map.empty \<and>
   entity_pos (bot_client (insts world2 0)) = Some (Vec3 0 0 0) \<and>
   distanceTo (Vec3 0 0 0) (Vec3 1 0 0) < 2 \<and> 2 \<le> distanceTo (Vec3 0 0 0) (Vec3 2 0 0) \<and>
   controlState (bot_client (insts
     (polls (snd (executeAction world2 ''b1'' (MoveAction ''forward'' (Blocks 2)))) 0 0
        [Some (Vec3 1 0 0)]) 0)) ''forward'' \<and>
   \<not> controlState (bot_client (insts
     (polls (snd (executeAction world2 ''b1'' (MoveAction ''forward'' (Blocks 2)))) 0 0
        [Some (Vec3 1 0 0), Some (Vec3 2 0 0)]) 0)) ''forward'' \<and>
   timers (polls (snd (executeAction world2 ''b1'' (MoveAction ''forward'' (Blocks 2)))) 0 0
        [Some (Vec3 1 0 0), Some (Vec3 2 0 0)]) = Map.empty"
proof -
  have r: "bots world2 ''b1'' = Some 0" by (simp add: world2_fields)
  have f: "\<forall>h\<ge>next_handle world2. timers world2 h = None" by (simp add: world2_fields)
  have s: "entity_pos (bot_client (insts world2 0)) = Some (Vec3 0 0 0)"
    by (simp add: world2_fields)
  have ps: "\<forall>p\<in>set [Some (Vec3 1 0 0)]. \<exists>q. p = Some q \<and> distanceTo (Vec3 0 0 0) q < 2"
    by simp
  have p: "Some (Vec3 2 0 0) = None \<or>
           (\<exists>q. Some (Vec3 2 0 0) = Some q \<and> 2 \<le> distanceTo (Vec3 0 0 0) q)"
    by simp
  note t = move_blocks_polling [OF r f, where direction = "''forward''" and d = 2,
      THEN conjunct2, rule_format, OF s, unfolded Let_def]
  note t1 = t [THEN conjunct2, THEN conjunct2, THEN conjunct2, THEN conjunct1, THEN spec,
      of "[Some (Vec3 1 0 0)]", THEN mp, OF ps]
  note t2 = t1 [THEN conjunct2, THEN conjunct2, THEN spec, of "Some (Vec3 2 0 0)", THEN mp, OF p]
  from r s t1 t2 show ?thesis
    by (simp add: controlStateOf_def world2_fields)
qed

subsection \<open>Restarting a running bot\<close>

lemma stopBot_running:
  assumes "bots w botId = Some r"
  shows "bots (stopBot w botId) = (bots w)(botId := None)"
    and "timers (stopBot w botId) h =
           (if h \<in> set (map snd (actionIntervals (insts w r))) then None else timers w h)"
    and "insts (stopBot w botId) =
           (insts w)(r := (insts w r)\<lparr>actionIntervals := [], continuousActions := {},
                                    bot_client := (bot_client (insts w r))\<lparr>quit_called := True\<rparr>\<rparr>)"
    and "next_ref (stopBot w botId) = next_ref w"
    and "next_handle (stopBot w botId) = next_handle w"
    and "clock (stopBot w botId) = clock w"
    and "createBot_error (stopBot w botId) = createBot_error w"
    and "emitted (stopBot w botId) = emitted w @ [StatusChange botId ''offline'' None]"
    and "storage (stopBot w botId) = snd (updateBot (storage w) botId (only_status ''offline''))"
  using assms by (simp_all add: stopBot_def Let_def clearIntervals_timers)

lemma startBot_fresh:
  assumes "bots w (bot_id d) = None"
  shows "startBot w d =
     (let w2 = emit (storage_updateBot w (bot_id d) (only_status ''connecting''))
                 (StatusChange (bot_id d) ''connecting'' None)
      in case createBot_error w of
           Some msg \<Rightarrow>
             (Inl (ConnectionFailed msg),
              emit (storage_updateBot w2 (bot_id d) (only_status ''error''))
                (ErrorEvent (bot_id d) (''Failed to start bot: '' @ msg)))
         | None \<Rightarrow>
             (Inr (),
              w2\<lparr>insts := (insts w2)(next_ref w := \<lparr> bot_client = new_client (name d), data = d,
                    startTime = clock w, actionIntervals = [], continuousActions = {} \<rparr>),
                 next_ref := Suc (next_ref w),
                 bots := (bots w)(bot_id d \<mapsto> next_ref w)\<rparr>))"
  using assms by (simp add: startBot_def Let_def split: option.splits)

lemma startBot_after_stop:
  "bots w (bot_id d) \<noteq> None \<Longrightarrow> startBot w d = startBot (stopBot w (bot_id d)) d"
  by (auto simp add: startBot_def[of w] startBot_def[of "stopBot w (bot_id d)"] stopBot_running(1))

text \<open>
  What a restart does for the session that the registry holds. When \<^verbatim>\<open>startBot\<close> is
  called for an identifier whose session is at \<open>r\<close>, and nothing interrupts the call, it
  is the start from the state \<open>ws\<close> in which that session has been stopped: in \<open>ws\<close> the
  registry has no entry for the identifier, every timer handle that the old session held
  in \<^verbatim>\<open>actionIntervals\<close> is cleared, its two maps are empty and \<^verbatim>\<open>quit\<close> has been
  called on its client. If \<^verbatim>\<open>createBot\<close> returns, the identifier is registered to a new
  session at a fresh address; if it throws, the call fails with \<open>ConnectionFailed\<close> and
  the identifier stays unregistered. Timers that the session does not hold in
  \<^verbatim>\<open>actionIntervals\<close>, and sessions that the registry does not hold, are not touched.
\<close>

lemma startBot_stops_registered_session:
  assumes "bots w (bot_id botData) = Some r" and "r < next_ref w"
  shows "let ws = stopBot w (bot_id botData); w' = snd (startBot w botData)
         in startBot w botData = startBot ws botData \<and>
            bots ws (bot_id botData) = None \<and>
            (\<forall>h\<in>set (map snd (actionIntervals (insts w r))).
               timers ws h = None \<and> timers w' h = None) \<and>
            actionIntervals (insts ws r) = [] \<and> continuousActions (insts ws r) = {} \<and>
            quit_called (bot_client (insts ws r)) \<and>
            insts w' r = insts ws r \<and> timers w' = timers ws \<and>
            (\<forall>i. i \<noteq> bot_id botData \<longrightarrow> bots w' i = bots w i) \<and>
            (case createBot_error w of
               None \<Rightarrow>
                 fst (startBot w botData) = Inr () \<and>
                 bots w' (bot_id botData) = Some (next_ref w) \<and> next_ref w \<noteq> r \<and>
                 insts w' (next_ref w) =
                   \<lparr> bot_client = new_client (name botData), data = botData,
                     startTime = clock w, actionIntervals = [], continuousActions = {} \<rparr>
             | Some msg \<Rightarrow>
                 fst (startBot w botData) = Inl (ConnectionFailed msg) \<and>
                 bots w' (bot_id botData) = None)"
proof -
  define ws where "ws = stopBot w (bot_id botData)"
  note sb = stopBot_running[OF assms(1), folded ws_def]
  have eq: "startBot w botData = startBot ws botData"
    unfolding ws_def using assms(1) by (intro startBot_after_stop) simp
  have none: "bots ws (bot_id botData) = None" by (simp add: sb(1))
  note sf = startBot_fresh[OF none]
  have tm: "\<forall>h\<in>set (map snd (actionIntervals (insts w r))). timers ws h = None"
    by (simp add: sb(2))
  have "timers (snd (startBot ws botData)) = timers ws"
    by (simp add: sf Let_def split: option.splits)
  moreover have "insts (snd (startBot ws botData)) r = insts ws r"
    using assms(2) by (simp add: sf Let_def sb(4) split: option.splits)
  moreover have "\<forall>i. i \<noteq> bot_id botData \<longrightarrow> bots (snd (startBot ws botData)) i = bots w i"
    by (simp add: sf Let_def sb(1) split: option.splits)
  moreover have "case createBot_error w of
               None \<Rightarrow>
                 fst (startBot ws botData) = Inr () \<and>
                 bots (snd (startBot ws botData)) (bot_id botData) = Some (next_ref w) \<and> next_ref w \<noteq> r \<and>
                 insts (snd (startBot ws botData)) (next_ref w) =
                   \<lparr> bot_client = new_client (name botData), data = botData,
                     startTime = clock w, actionIntervals = [], continuousActions = {} \<rparr>
             | Some msg \<Rightarrow>
                 fst (startBot ws botData) = Inl (ConnectionFailed msg) \<and>
                 bots (snd (startBot ws botData)) (bot_id botData) = None"
    using assms(2) by (simp add: sf Let_def sb split: option.splits)
  ultimately show ?thesis
    unfolding Let_def ws_def[symmetric] eq using none tm by (simp add: sb(3))
qed


lemma world4_fields:
  "bots world4 = [''b1'' \<mapsto> 0]"
  "timers world4 = [0 \<mapsto> \<lparr>repeating = True, delay = 2000, callback = ExecuteAction 0 ''mine''\<rparr>]"
  "next_handle world4 = Suc 0"
  "next_ref world4 = Suc 0"
  "createBot_error world4 = None"
  "actionIntervals (insts world4 0) = [(''mine'', 0)]"
  by (simp_all add: world4_def executeAction_def handleAction_def handleAction_start_def world1_eq
      Let_def setInterval_def case_prod_beta)

lemma startBot_stops_registered_session_example:
  "bots world4 (bot_id bob) = Some 0 \<and> 0 < next_ref world4 \<and>
   timers world4 0 =
     Some \<lparr>repeating = True, delay = 2000, callback = ExecuteAction 0 ''mine''\<rparr> \<and>
   timers (stopBot world4 ''b1'') 0 = None \<and>
   timers (snd (startBot world4 bob)) 0 = None \<and>
   quit_called (bot_client (insts (snd (startBot world4 bob)) 0)) \<and>
   bots (snd (startBot world4 bob)) ''b1'' = Some 1"
proof -
  have b: "bots world4 (bot_id bob) = Some 0" by (simp add: world4_fields bob_def)
  have n: "0 < next_ref world4" by (simp add: world4_fields)
  have i: "bot_id bob = ''b1''" by (simp add: bob_def)
  note th = startBot_stops_registered_session [OF b n, unfolded Let_def, THEN conjunct2]
  from b n th show ?thesis
    by (simp add: world4_fields i)
qed

subsection \<open>Recurring actions\<close>












subsection \<open>Overlapping requests for continuous mining\<close>

lemma executeAction_closure_mine:
  "executeAction_closure w r ''mine'' =
     (case blockAtCursor (bot_client (insts w r)) of
        None \<Rightarrow> issue w r CmdSwingArm
      | Some b \<Rightarrow> issue (issue w r CmdSwingArm) r (CmdDig b))"
  by (simp add: executeAction_closure_def Let_def)

lemma handleAction_start_mine_continuous:
  "handleAction_start w r ''mine'' ''continuous'' i =
     (Some (InstallContinuous r ''mine''),
      executeAction_closure
        (upd_inst
           (case map_of (actionIntervals (insts w r)) ''mine'' of
              None \<Rightarrow> w
            | Some h \<Rightarrow> upd_inst (clearInterval w h) r
                 (\<lambda>i. i\<lparr>actionIntervals := AList.delete ''mine'' (actionIntervals i)\<rparr>))
           r (\<lambda>i. i\<lparr>continuousActions := insert ''mine'' (continuousActions i - {''mine''})\<rparr>))
        r ''mine'')"
  by (simp add: handleAction_start_def Let_def upd_inst_def)

lemma world3_fields:
  "bots world3 = [''b1'' \<mapsto> 0]"
  "timers world3 = Map.empty"
  "next_handle world3 = 0"
  "insts world3 0 =
     \<lparr> bot_client = (new_client ''Bob'')
         \<lparr>bot_entity := Some \<lparr>entity_position = Some (Vec3 0 0 0), yaw = 0, pitch = 0\<rparr>,
          blockAtCursor := Some 7\<rparr>,
       data = bob, startTime = 0, actionIntervals = [], continuousActions = {} \<rparr>"
  by (simp_all add: world3_def world2_def observe_def world1_eq)

lemma overlap1_fields:
  "bots overlap1 = [''b1'' \<mapsto> 0]"
  "timers overlap1 = Map.empty"
  "next_handle overlap1 = 0"
  "insts overlap1 0 =
     \<lparr> bot_client = (new_client ''Bob'')
         \<lparr>commands := [CmdSwingArm, CmdDig 7],
          bot_entity := Some \<lparr>entity_position = Some (Vec3 0 0 0), yaw = 0, pitch = 0\<rparr>,
          blockAtCursor := Some 7\<rparr>,
       data = bob, startTime = 0, actionIntervals = [], continuousActions = {''mine''} \<rparr>"
  by (simp_all add: overlap1_def handleAction_start_mine_continuous executeAction_closure_mine
      world3_fields issue_def new_client_def)

lemma overlap2_fields:
  "bots overlap2 = [''b1'' \<mapsto> 0]"
  "timers overlap2 = Map.empty"
  "next_handle overlap2 = 0"
  "insts overlap2 0 =
     \<lparr> bot_client = (new_client ''Bob'')
         \<lparr>commands := [CmdSwingArm, CmdDig 7, CmdSwingArm, CmdDig 7],
          bot_entity := Some \<lparr>entity_position = Some (Vec3 0 0 0), yaw = 0, pitch = 0\<rparr>,
          blockAtCursor := Some 7\<rparr>,
       data = bob, startTime = 0, actionIntervals = [], continuousActions = {''mine''} \<rparr>"
  by (simp_all add: overlap2_def handleAction_start_mine_continuous executeAction_closure_mine
      overlap1_fields issue_def new_client_def)

lemma handleAction_finish_fields:
  "bots (handleAction_finish w (InstallContinuous r k)) = bots w"
  "timers (handleAction_finish w (InstallContinuous r k)) =
     (timers w)(next_handle w \<mapsto> \<lparr>repeating = True, delay = 50, callback = ExecuteAction r k\<rparr>)"
  "next_handle (handleAction_finish w (InstallContinuous r k)) = Suc (next_handle w)"
  "insts (handleAction_finish w (InstallContinuous r k)) =
     (insts w)(r := (insts w r)\<lparr>actionIntervals :=
        AList.update k (next_handle w) (actionIntervals (insts w r))\<rparr>)"
  by (simp_all add: handleAction_finish_def setInterval_def case_prod_beta)

lemma overlap3_fields:
  "bots overlap3 = [''b1'' \<mapsto> 0]"
  "timers overlap3 = [0 \<mapsto> \<lparr>repeating = True, delay = 50, callback = ExecuteAction 0 ''mine''\<rparr>]"
  "next_handle overlap3 = Suc 0"
  "actionIntervals (insts overlap3 0) = [(''mine'', 0)]"
  by (simp_all add: overlap3_def handleAction_finish_fields overlap2_fields)

lemma overlap4_fields:
  "bots overlap4 = [''b1'' \<mapsto> 0]"
  "timers overlap4 =
     [0 \<mapsto> \<lparr>repeating = True, delay = 50, callback = ExecuteAction 0 ''mine''\<rparr>,
      Suc 0 \<mapsto> \<lparr>repeating = True, delay = 50, callback = ExecuteAction 0 ''mine''\<rparr>]"
  "actionIntervals (insts overlap4 0) = [(''mine'', Suc 0)]"
  by (simp_all add: overlap4_def handleAction_finish_fields overlap3_fields)

lemma overlap5_fields:
  "bots overlap5 = [''b1'' \<mapsto> 0]"
  "timers overlap5 = [0 \<mapsto> \<lparr>repeating = True, delay = 50, callback = ExecuteAction 0 ''mine''\<rparr>]"
  "actionIntervals (insts overlap5 0) = []"
  by (simp_all add: overlap5_def executeAction_def overlap4_fields handleAction_def
      handleAction_start_def Let_def fun_upd_twist)

lemma overlap6_fields:
  "bots overlap6 = Map.empty"
  "timers overlap6 = [0 \<mapsto> \<lparr>repeating = True, delay = 50, callback = ExecuteAction 0 ''mine''\<rparr>]"
  by (simp_all add: overlap6_def stopBot_def overlap5_fields Let_def)

text \<open>
  C2. Each call of \<^verbatim>\<open>handleAction\<close> clears the timer registered for its kind when it
  starts, but in continuous mode it installs its own timer only after it has awaited the
  first run of the behaviour. For the bot of \<open>world3\<close>, which is running, holds no timer
  and looks at a block, two requests for continuous mining overlap: each is suspended at
  the \<^verbatim>\<open>await\<close>, having found no timer to clear; then each installs a timer. In
  \<open>overlap4\<close> two timers run the behaviour of \<^verbatim>\<open>mine\<close> for this bot, and only the
  second is registered. A stop request for \<^verbatim>\<open>mine\<close> (\<open>overlap5\<close>) clears the second
  and leaves the first; so does \<^verbatim>\<open>stopBot\<close> after it (\<open>overlap6\<close>).
\<close>

theorem overlapping_continuous_leaks_timer:
  "bots world3 ''b1'' = Some 0 \<and> timers world3 = Map.empty \<and>
   handleAction_start world3 0 ''mine'' ''continuous'' None =
     (Some (InstallContinuous 0 ''mine''), overlap1) \<and>
   handleAction_start overlap1 0 ''mine'' ''continuous'' None =
     (Some (InstallContinuous 0 ''mine''), overlap2) \<and>
   timers overlap4 =
     [0 \<mapsto> \<lparr>repeating = True, delay = 50, callback = ExecuteAction 0 ''mine''\<rparr>,
      1 \<mapsto> \<lparr>repeating = True, delay = 50, callback = ExecuteAction 0 ''mine''\<rparr>] \<and>
   actionIntervals (insts overlap4 0) = [(''mine'', 1)] \<and>
   timers overlap5 = [0 \<mapsto> \<lparr>repeating = True, delay = 50, callback = ExecuteAction 0 ''mine''\<rparr>] \<and>
   timers overlap6 = [0 \<mapsto> \<lparr>repeating = True, delay = 50, callback = ExecuteAction 0 ''mine''\<rparr>]"
  by (simp add: world3_fields overlap4_fields overlap5_fields overlap6_fields
      handleAction_start_mine_continuous overlap1_def overlap2_def)

subsection \<open>Reconnecting\<close>

lemma restartBot_never_fails: "fst (restartBot w botId) = Inr ()"
  by (simp add: restartBot_def split: option.splits sum.splits prod.splits)

lemma reconnect_is_restart: "reconnect w botId = snd (restartBot w botId)"
  using restartBot_never_fails[of w botId]
  by (cases "restartBot w botId") (simp add: reconnect_def split: sum.splits)

lemma status_bob [simp]:
  "bot_id bob = ''b1''" "name bob = ''Bob''"
  "spread bob (only_status st) = bob\<lparr>status := st\<rparr>"
  "spread (bob\<lparr>status := st'\<rparr>) (only_status st) = bob\<lparr>status := st\<rparr>"
  by (simp_all add: bob_def spread_def only_status_def no_updates_def supplied_def)

lemma world1_fields:
  "bots world1 = [''b1'' \<mapsto> 0]"
  "timers world1 = Map.empty"
  "next_handle world1 = 0"
  "next_ref world1 = Suc 0"
  "clock world1 = 0"
  "createBot_error world1 = None"
  "storage world1 = [''b1'' \<mapsto> bob\<lparr>status := ''connecting''\<rparr>]"
  "emitted world1 = [StatusChange ''b1'' ''connecting'' None]"
  "insts world1 0 = \<lparr> bot_client = new_client ''Bob'', data = bob,
                 startTime = 0, actionIntervals = [], continuousActions = {} \<rparr>"
  by (simp_all add: world1_eq bob_def)

lemma dropped1_fields:
  "bots dropped1 = Map.empty"
  "timers dropped1 = [0 \<mapsto> \<lparr>repeating = False, delay = 5000, callback = Reconnect ''b1''\<rparr>]"
  "next_handle dropped1 = Suc 0"
  "next_ref dropped1 = Suc 0"
  "clock dropped1 = 0"
  "createBot_error dropped1 = None"
  "storage dropped1 = [''b1'' \<mapsto> bob\<lparr>status := ''offline''\<rparr>]"
  "emitted dropped1 = [StatusChange ''b1'' ''connecting'' None, StatusChange ''b1'' ''offline'' None]"
  by (simp_all add: dropped1_def on_end_def Let_def world1_fields setTimeout_def updateBot_def)

lemma dropped2_fields:
  "fst (startBot (dropped1\<lparr>createBot_error := Some ''unsupported''\<rparr>) bob) =
     Inl (ConnectionFailed ''unsupported'')"
  "bots dropped2 = Map.empty"
  "timers dropped2 = [0 \<mapsto> \<lparr>repeating = False, delay = 5000, callback = Reconnect ''b1''\<rparr>]"
  "next_handle dropped2 = Suc 0"
  "createBot_error dropped2 = Some ''unsupported''"
  "storage dropped2 = [''b1'' \<mapsto> bob\<lparr>status := ''error''\<rparr>]"
  "emitted dropped2 = emitted dropped1 @
     [StatusChange ''b1'' ''connecting'' None, ErrorEvent ''b1'' ''Failed to start bot: unsupported'']"
  by (simp_all add: dropped2_def startBot_def Let_def dropped1_fields updateBot_def)

lemma dropped3_fields:
  "bots dropped3 = Map.empty"
  "timers dropped3 = Map.empty"
  "storage dropped3 = [''b1'' \<mapsto> bob\<lparr>status := ''error''\<rparr>]"
  "emitted dropped3 = emitted dropped2 @
     [StatusChange ''b1'' ''connecting'' None, ErrorEvent ''b1'' ''Failed to start bot: unsupported'']"
  by (simp_all add: dropped3_def fire_def run_callback_def reconnect_is_restart restartBot_def
      getBot_def startBot_def Let_def dropped2_fields updateBot_def)

text \<open>
  C3. The connection of the running bot of \<open>world1\<close> closes with the reason
  \<^verbatim>\<open>socketClosed\<close>: the listener sets the status to offline and one timeout of
  5000 ms for the reconnect (\<open>dropped1\<close>). While \<^verbatim>\<open>createBot\<close> throws, an operator
  starts the bot: the start fails and leaves the status at error (\<open>dropped2\<close>). The
  timeout fires (\<open>dropped3\<close>): the status is not offline, so \<^verbatim>\<open>restartBot\<close> calls
  \<^verbatim>\<open>startBot\<close>, which fails again, as the two events show. \<^verbatim>\<open>restartBot\<close> has
  caught that error, so the \<^verbatim>\<open>catch\<close> that sets the timeout for the second attempt
  does not run: no timer is left, and no second attempt follows.
\<close>

theorem failed_reconnect_is_not_retried:
  "bots world1 ''b1'' = Some 0 \<and>
   timers dropped1 = [0 \<mapsto> \<lparr>repeating = False, delay = 5000, callback = Reconnect ''b1''\<rparr>] \<and>
   fst (startBot (dropped1\<lparr>createBot_error := Some ''unsupported''\<rparr>) bob) =
     Inl (ConnectionFailed ''unsupported'') \<and>
   map_option status (storage dropped2 ''b1'') = Some ''error'' \<and>
   timers dropped2 = timers dropped1 \<and>
   emitted dropped3 = emitted dropped2 @
     [StatusChange ''b1'' ''connecting'' None,
      ErrorEvent ''b1'' ''Failed to start bot: unsupported''] \<and>
   bots dropped3 ''b1'' = None \<and>
   timers dropped3 = Map.empty"
  by (simp add: world1_fields dropped1_fields dropped2_fields dropped3_fields)

subsection \<open>A chat format error\<close>

lemma chat1_fields:
  "bots chat1 = Map.empty"
  "timers chat1 = Map.empty"
  "next_handle chat1 = 0"
  "next_ref chat1 = Suc 0"
  "clock chat1 = 0"
  "createBot_error chat1 = None"
  "storage chat1 = [''b1'' \<mapsto> bob\<lparr>status := ''error''\<rparr>]"
  "emitted chat1 = [StatusChange ''b1'' ''connecting'' None,
                    ErrorEvent ''b1'' ''unknown chat format code: z'']"
  "insts chat1 0 = insts world1 0"
  by (simp_all add: chat1_def on_error_def Let_def world1_fields updateBot_def)

lemma chat2_fields:
  "bots chat2 = Map.empty"
  "timers chat2 = [0 \<mapsto> \<lparr>repeating = False, delay = 5000, callback = Reconnect ''b1''\<rparr>]"
  "next_handle chat2 = Suc 0"
  "next_ref chat2 = Suc 0"
  "clock chat2 = 0"
  "createBot_error chat2 = None"
  "storage chat2 = [''b1'' \<mapsto> bob\<lparr>status := ''offline''\<rparr>]"
  by (simp_all add: chat2_def on_end_def Let_def chat1_fields world1_fields setTimeout_def updateBot_def)

lemma chat3_fields:
  "bots chat3 = [''b1'' \<mapsto> Suc 0]"
  "timers chat3 = [0 \<mapsto> \<lparr>repeating = False, delay = 5000, callback = Reconnect ''b1''\<rparr>]"
  "next_ref chat3 = Suc (Suc 0)"
  "createBot_error chat3 = None"
  "storage chat3 = [''b1'' \<mapsto> bob\<lparr>status := ''connecting''\<rparr>]"
  "actionIntervals (insts chat3 (Suc 0)) = []"
  "quit_called (bot_client (insts chat3 (Suc 0))) = False"
  by (simp_all add: chat3_def startBot_def Let_def chat2_fields updateBot_def new_client_def)

lemma chat4_fields:
  "bots chat4 = [''b1'' \<mapsto> Suc (Suc 0)]"
  "timers chat4 = Map.empty"
  "quit_called (bot_client (insts chat4 (Suc 0))) = True"
  by (simp_all add: chat4_def fire_def run_callback_def reconnect_is_restart restartBot_def
      getBot_def startBot_def stopBot_def Let_def chat3_fields updateBot_def)

text \<open>
  C9. The client of the running bot of \<open>world1\<close> reports an error whose message contains
  \<^verbatim>\<open>unknown chat format code\<close>: the listener sets the status to error, emits the error
  event and removes the session from the registry, and sets no timer (\<open>chat1\<close>). The
  listener of \<^verbatim>\<open>end\<close> knows nothing of this: when the connection then closes with
  the reason \<^verbatim>\<open>socketClosed\<close>, it sets the timeout of 5000 ms for the reconnect as after
  any other close (\<open>chat2\<close>). If an operator has started the bot again by the time the
  timeout fires (\<open>chat3\<close>), the reconnect stops that session and starts another
  (\<open>chat4\<close>).
\<close>

theorem chat_error_does_not_stop_reconnect:
  "bots world1 ''b1'' = Some 0 \<and>
   str_includes ''unknown chat format code: z'' ''unknown chat format code'' \<and>
   bots chat1 ''b1'' = None \<and> timers chat1 = Map.empty \<and>
   timers chat2 = [0 \<mapsto> \<lparr>repeating = False, delay = 5000, callback = Reconnect ''b1''\<rparr>] \<and>
   bots chat3 ''b1'' = Some 1 \<and> \<not> quit_called (bot_client (insts chat3 1)) \<and>
   bots chat4 ''b1'' = Some 2 \<and> quit_called (bot_client (insts chat4 1))"
  by (simp add: world1_fields chat1_fields chat2_fields chat3_fields chat4_fields numeral_2_eq_2)

subsection \<open>Requests for one kind that do not overlap\<close>

text \<open>
  A call of \<^verbatim>\<open>handleAction\<close> that nothing interrupts keeps the schedule of its kind in
  order, whatever the mode: afterwards, as before, at most one timer runs the behaviour of
  the kind, and it is the registered one. The state \<open>overlap4\<close> above is not of this form.
\<close>

lemma issue_inst [simp]:
  "actionIntervals (insts (issue w r c) r') = actionIntervals (insts w r')"
  "continuousActions (insts (issue w r c) r') = continuousActions (insts w r')"
  by (simp_all add: issue_def)

lemma setControlState_inst [simp]:
  "actionIntervals (insts (setControlState w r c v) r') = actionIntervals (insts w r')"
  "continuousActions (insts (setControlState w r c v) r') = continuousActions (insts w r')"
  by (simp_all add: setControlState_def)

lemma executeAction_closure_frame:
  "bots (executeAction_closure w r k) = bots w"
  "actionIntervals (insts (executeAction_closure w r k) r') = actionIntervals (insts w r')"
  "timers (executeAction_closure w r k) =
     (if k = ''jump''
      then (timers w)(next_handle w \<mapsto> \<lparr>repeating = False, delay = 100, callback = JumpRelease r\<rparr>)
      else timers w)"
  "next_handle (executeAction_closure w r k) =
     (if k = ''jump'' then Suc (next_handle w) else next_handle w)"
  by (simp_all add: executeAction_closure_def Let_def setTimeout_def split: option.splits)

lemma handleAction_keeps_schedule:
  assumes "schedule_ok w r k"
  shows "schedule_ok (handleAction w r k mode interval) r k"
proof -
  define w2 where "w2 = upd_inst
     (case map_of (actionIntervals (insts w r)) k of
        None \<Rightarrow> w
      | Some h \<Rightarrow> upd_inst (clearInterval w h) r
           (\<lambda>i. i\<lparr>actionIntervals := AList.delete k (actionIntervals i)\<rparr>))
     r (\<lambda>i. i\<lparr>continuousActions := continuousActions i - {k}\<rparr>)"
  have nh: "next_handle w2 = next_handle w"
    by (simp add: w2_def split: option.splits)
  have reg: "map_of (actionIntervals (insts w2 r)) k = None"
    by (simp add: w2_def delete_conv' split: option.splits)
  have tm: "timers w2 h = (if map_of (actionIntervals (insts w r)) k = Some h then None else timers w h)" for h
    by (simp add: w2_def split: option.splits)
  have fresh: "\<forall>h\<ge>next_handle w2. timers w2 h = None"
    using assms by (simp add: schedule_ok_def tm nh)
  have none: "callback t \<noteq> ExecuteAction r k" if "timers w2 h = Some t" for h t
    using that assms by (auto simp add: schedule_ok_def kind_timers_def tm split: if_splits)
  have ok2: "schedule_ok w2 r k"
    using fresh none by (auto simp add: schedule_ok_def kind_timers_def reg)
  have stop: "schedule_ok (setControlState w2 r c v) r k" for c v
    using ok2 by (simp add: schedule_ok_def kind_timers_def)
  have once: "schedule_ok (executeAction_closure w2 r k) r k"
    using fresh none
    by (auto simp add: schedule_ok_def kind_timers_def executeAction_closure_frame reg
        split: if_splits)
  have inst: "schedule_ok
       (upd_inst (snd (setInterval w3 cb ms)) r
          (\<lambda>i. i\<lparr>actionIntervals := AList.update k (next_handle w3) (actionIntervals i)\<rparr>)) r k"
    if "\<forall>h\<ge>next_handle w3. timers w3 h = None"
      and "\<And>h t. timers w3 h = Some t \<Longrightarrow> callback t \<noteq> ExecuteAction r k" for w3 cb ms
    using that
    by (auto simp add: schedule_ok_def kind_timers_def setInterval_def update_conv'
        split: if_splits)
  have cont: "schedule_ok
       (handleAction_finish
          (executeAction_closure
             (upd_inst w2 r (\<lambda>i. i\<lparr>continuousActions := insert k (continuousActions i)\<rparr>)) r k)
          (InstallContinuous r k)) r k"
    if "k \<noteq> ''jump''"
    using that fresh none inst[of "executeAction_closure
             (upd_inst w2 r (\<lambda>i. i\<lparr>continuousActions := insert k (continuousActions i)\<rparr>)) r k"
          "ExecuteAction r k" 50]
    by (simp add: handleAction_finish_def case_prod_beta executeAction_closure_frame nh setInterval_def)
  have jump: "schedule_ok
       (upd_inst (snd (setInterval
          (upd_inst w2 r (\<lambda>i. i\<lparr>continuousActions := insert k (continuousActions i)\<rparr>))
          (JumpInterval r) 500)) r
          (\<lambda>i. i\<lparr>actionIntervals := AList.update k (next_handle w2) (actionIntervals i)\<rparr>)) r k"
    using fresh none inst[of "upd_inst w2 r (\<lambda>i. i\<lparr>continuousActions := insert k (continuousActions i)\<rparr>)"
        "JumpInterval r" 500]
    by simp
  have intv: "schedule_ok
       (upd_inst (snd (setInterval w2 (ExecuteAction r k) ms)) r
          (\<lambda>i. i\<lparr>actionIntervals := AList.update k (next_handle w2) (actionIntervals i)\<rparr>)) r k" for ms
    using fresh none inst[of w2 "ExecuteAction r k" ms] by simp
  have flagged: "schedule_ok
       (setControlState (upd_inst w2 r (\<lambda>i. i\<lparr>continuousActions := insert k (continuousActions i)\<rparr>)) r c v) r k"
    for c v
    using ok2 by (simp add: schedule_ok_def kind_timers_def)
  have hs: "handleAction w r k mode interval =
     (if mode = ''stop'' then
        (if k = ''sprint'' then setControlState w2 r ''sprint'' False
         else if k = ''sneak'' then setControlState w2 r ''sneak'' False
         else w2)
      else if mode = ''once'' then executeAction_closure w2 r k
      else if mode = ''continuous'' then
        (if k = ''sprint'' then
           setControlState (upd_inst w2 r
             (\<lambda>i. i\<lparr>continuousActions := insert k (continuousActions i)\<rparr>)) r ''sprint'' True
         else if k = ''sneak'' then
           setControlState (upd_inst w2 r
             (\<lambda>i. i\<lparr>continuousActions := insert k (continuousActions i)\<rparr>)) r ''sneak'' True
         else if k = ''jump'' then
           upd_inst (snd (setInterval
              (upd_inst w2 r (\<lambda>i. i\<lparr>continuousActions := insert k (continuousActions i)\<rparr>))
              (JumpInterval r) 500)) r
              (\<lambda>i. i\<lparr>actionIntervals := AList.update k (next_handle w2) (actionIntervals i)\<rparr>)
         else handleAction_finish
                (executeAction_closure
                   (upd_inst w2 r
                      (\<lambda>i. i\<lparr>continuousActions := insert k (continuousActions i)\<rparr>)) r k)
                (InstallContinuous r k))
      else if mode = ''interval'' then
        (case interval of
           None \<Rightarrow> w2
         | Some t \<Rightarrow>
             if 0 < t then
               upd_inst (snd (setInterval w2 (ExecuteAction r k) ((t / 20) * 1000))) r
                 (\<lambda>i. i\<lparr>actionIntervals :=
                           AList.update k (next_handle w2) (actionIntervals i)\<rparr>)
             else w2)
      else w2)"
    unfolding handleAction_def handleAction_start_def Let_def w2_def[symmetric]
    by (simp add: case_prod_beta setInterval_def split: option.splits)
  show ?thesis
  proof (cases "mode = ''stop''")
    case True
    show ?thesis unfolding hs
      using True ok2 stop[of "''sprint''" False] stop[of "''sneak''" False] by auto
  next
    case ns: False
    show ?thesis
    proof (cases "mode = ''once''")
      case True
      show ?thesis unfolding hs using True once by simp
    next
      case no: False
      show ?thesis
      proof (cases "mode = ''continuous''")
        case True
        show ?thesis unfolding hs
          using True flagged[of "''sprint''" True] flagged[of "''sneak''" True] jump cont
          by auto
      next
        case nc: False
        show ?thesis
        proof (cases "mode = ''interval''")
          case True
          show ?thesis unfolding hs using True ok2 intv by (simp split: option.splits)
        next
          case False
          show ?thesis unfolding hs using False ns no nc ok2 by simp
        qed
      qed
    qed
  qed
qed

lemma schedule_ok_single:
  assumes "schedule_ok w r k" and "h \<in> kind_timers w r k" and "h' \<in> kind_timers w r k"
  shows "h = h'"
proof -
  from assms have "map_of (actionIntervals (insts w r)) k = Some h"
    and "map_of (actionIntervals (insts w r)) k = Some h'"
    unfolding schedule_ok_def by blast+
  then show ?thesis by simp
qed

lemma overlap4_not_ok: "\<not> schedule_ok overlap4 0 ''mine''"
proof
  assume ok: "schedule_ok overlap4 0 ''mine''"
  have "0 \<in> kind_timers overlap4 0 ''mine''" "Suc 0 \<in> kind_timers overlap4 0 ''mine''"
    by (simp_all add: kind_timers_def overlap4_fields)
  from schedule_ok_single[OF ok this] show False by simp
qed

subsection \<open>The listeners of error and end, in any state\<close>

text \<open>
  What the two listeners do, whatever the state. The listener of \<^verbatim>\<open>error\<close> never sets
  a timer; for a chat format error it also removes the registry entry of its identifier.
  The listener of \<^verbatim>\<open>end\<close> sets the reconnect timer exactly when the reason is
  \<^verbatim>\<open>socketClosed\<close>, and removes the registry entry of its identifier in both cases.
\<close>

lemma on_error_chat_format:
  assumes "str_includes message ''unknown chat format code''"
  shows "bots (on_error w r message) = (bots w)(bot_id (data (insts w r)) := None)"
    and "timers (on_error w r message) = timers w"
    and "emitted (on_error w r message) =
           emitted w @ [ErrorEvent (bot_id (data (insts w r))) message]"
    and "storage (on_error w r message) =
           snd (updateBot (storage w) (bot_id (data (insts w r))) (only_status ''error''))"
    and "insts (on_error w r message) = insts w"
  using assms by (simp_all add: on_error_def Let_def)

lemma on_error_other:
  assumes "\<not> str_includes message ''unknown chat format code''"
  shows "bots (on_error w r message) = bots w"
    and "timers (on_error w r message) = timers w"
  using assms by (simp_all add: on_error_def Let_def)

lemma on_end_socketClosed:
  "timers (on_end w r ''socketClosed'') (next_handle w) =
     Some \<lparr>repeating = False, delay = 5000, callback = Reconnect (bot_id (data (insts w r)))\<rparr>"
  "bots (on_end w r ''socketClosed'') = (bots w)(bot_id (data (insts w r)) := None)"
  by (simp_all add: on_end_def Let_def setTimeout_def)

lemma on_end_other_reason:
  assumes "reason \<noteq> ''socketClosed''"
  shows "timers (on_end w r reason) h =
           (if h \<in> set (map snd (actionIntervals (insts w r))) then None else timers w h)"
    and "next_handle (on_end w r reason) = next_handle w"
  using assms by (simp_all add: on_end_def Let_def clearIntervals_timers)

subsection \<open>Sessions that a restart leaves behind\<close>

lemma startBot_running_fields:
  assumes "bots w (bot_id d) = Some r" and "createBot_error w = None"
  shows "bots (snd (startBot w d)) = (bots w)(bot_id d \<mapsto> next_ref w)"
    and "insts (snd (startBot w d)) =
           (insts w)(r := (insts w r)\<lparr>actionIntervals := [], continuousActions := {},
                      bot_client := (bot_client (insts w r))\<lparr>quit_called := True\<rparr>\<rparr>,
                     next_ref w := \<lparr> bot_client = new_client (name d), data = d,
                       startTime = clock w, actionIntervals = [], continuousActions = {} \<rparr>)"
    and "next_ref (snd (startBot w d)) = Suc (next_ref w)"
    and "timers (snd (startBot w d)) h =
           (if h \<in> set (map snd (actionIntervals (insts w r))) then None else timers w h)"
    and "createBot_error (snd (startBot w d)) = None"
    and "clock (snd (startBot w d)) = clock w"
    and "storage (snd (startBot w d)) =
           snd (updateBot (snd (updateBot (storage w) (bot_id d) (only_status ''offline'')))
                  (bot_id d) (only_status ''connecting''))"
  using assms by (simp_all add: startBot_def Let_def stopBot_running)

lemma startBot_idle_fields:
  assumes "bots w (bot_id d) = None" and "createBot_error w = None"
  shows "bots (snd (startBot w d)) = (bots w)(bot_id d \<mapsto> next_ref w)"
    and "insts (snd (startBot w d)) =
           (insts w)(next_ref w := \<lparr> bot_client = new_client (name d), data = d,
                       startTime = clock w, actionIntervals = [], continuousActions = {} \<rparr>)"
    and "next_ref (snd (startBot w d)) = Suc (next_ref w)"
    and "timers (snd (startBot w d)) = timers w"
  using assms by (simp_all add: startBot_fresh Let_def)

lemma restart1_fields:
  "bots restart1 = [''b1'' \<mapsto> Suc 0]"
  "next_ref restart1 = Suc (Suc 0)"
  "createBot_error restart1 = None"
  "timers restart1 = Map.empty"
  "insts restart1 0 = \<lparr> bot_client = (new_client ''Bob'')\<lparr>quit_called := True\<rparr>, data = bob,
      startTime = 0, actionIntervals = [], continuousActions = {} \<rparr>"
  "insts restart1 (Suc 0) = \<lparr> bot_client = new_client ''Bob'', data = bob,
      startTime = 0, actionIntervals = [], continuousActions = {} \<rparr>"
proof -
  have b: "bots world1 (bot_id bob) = Some 0" and e: "createBot_error world1 = None"
    by (simp_all add: world1_fields)
  note f = startBot_running_fields[OF b e, folded restart1_def]
  show "bots restart1 = [''b1'' \<mapsto> Suc 0]" by (simp add: f world1_fields)
  show "next_ref restart1 = Suc (Suc 0)" by (simp add: f world1_fields)
  show "createBot_error restart1 = None" by (simp add: f)
  show "timers restart1 = Map.empty" by (rule ext) (simp add: f world1_fields)
  show "insts restart1 0 = \<lparr> bot_client = (new_client ''Bob'')\<lparr>quit_called := True\<rparr>, data = bob,
      startTime = 0, actionIntervals = [], continuousActions = {} \<rparr>"
    by (simp add: f world1_fields)
  show "insts restart1 (Suc 0) = \<lparr> bot_client = new_client ''Bob'', data = bob,
      startTime = 0, actionIntervals = [], continuousActions = {} \<rparr>"
    by (simp add: f world1_fields)
qed

lemma restart2_fields:
  "bots restart2 = Map.empty"
  "next_ref restart2 = Suc (Suc 0)"
  "createBot_error restart2 = None"
  "timers restart2 = Map.empty"
  "insts restart2 (Suc 0) = insts restart1 (Suc 0)"
  by (simp_all add: restart2_def on_end_def Let_def restart1_fields updateBot_def)

lemma restart3_fields:
  "bots restart3 = [''b1'' \<mapsto> Suc (Suc 0)]"
  "insts restart3 (Suc 0) = insts restart1 (Suc 0)"
  "insts restart3 (Suc (Suc 0)) = \<lparr> bot_client = new_client ''Bob'', data = bob,
      startTime = clock restart2, actionIntervals = [], continuousActions = {} \<rparr>"
proof -
  have b: "bots restart2 (bot_id bob) = None" and e: "createBot_error restart2 = None"
    by (simp_all add: restart2_fields)
  note f = startBot_idle_fields[OF b e, folded restart3_def]
  show "bots restart3 = [''b1'' \<mapsto> Suc (Suc 0)]" by (simp add: f restart2_fields)
  show "insts restart3 (Suc 0) = insts restart1 (Suc 0)" by (simp add: f restart2_fields)
  show "insts restart3 (Suc (Suc 0)) = \<lparr> bot_client = new_client ''Bob'', data = bob,
      startTime = clock restart2, actionIntervals = [], continuousActions = {} \<rparr>"
    by (simp add: f restart2_fields)
qed

lemma moving1_fields:
  "bots moving1 = [''b1'' \<mapsto> 0]"
  "next_ref moving1 = Suc 0"
  "createBot_error moving1 = None"
  "timers moving1 = [0 \<mapsto> poll_timer 0 (Vec3 0 0 0) ''forward'' 3]"
  "actionIntervals (insts moving1 0) = []"
  "controlState (bot_client (insts moving1 0)) ''forward''"
proof -
  have e: "moving1 = snd (setTimeout (setControlState world2 0 ''forward'' True)
                      (CheckDistance 0 (Vec3 0 0 0) ''forward'' 3) 50)"
    using move_blocks_start[of world2 "''b1''" 0 "Vec3 0 0 0" "''forward''" 3]
    by (simp add: moving1_def world2_fields controlStateOf_def)
  show "bots moving1 = [''b1'' \<mapsto> 0]" by (simp add: e setTimeout_def world2_fields)
  show "next_ref moving1 = Suc 0" by (simp add: e setTimeout_def world2_def world1_fields)
  show "createBot_error moving1 = None" by (simp add: e setTimeout_def world2_def world1_fields)
  show "timers moving1 = [0 \<mapsto> poll_timer 0 (Vec3 0 0 0) ''forward'' 3]"
    by (simp add: e setTimeout_def world2_fields poll_timer_def)
  show "actionIntervals (insts moving1 0) = []"
    by (simp add: e setTimeout_def world2_def observe_def world1_fields)
  show "controlState (bot_client (insts moving1 0)) ''forward''"
    by (simp add: e setTimeout_def)
qed

lemma moving2_fields:
  "bots moving2 = [''b1'' \<mapsto> Suc 0]"
  "timers moving2 0 = Some (poll_timer 0 (Vec3 0 0 0) ''forward'' 3)"
  "quit_called (bot_client (insts moving2 0))"
  "controlState (bot_client (insts moving2 0)) ''forward''"
proof -
  have b: "bots moving1 (bot_id bob) = Some 0" and e: "createBot_error moving1 = None"
    by (simp_all add: moving1_fields)
  note f = startBot_running_fields[OF b e, folded moving2_def]
  show "bots moving2 = [''b1'' \<mapsto> Suc 0]" by (simp add: f moving1_fields)
  show "timers moving2 0 = Some (poll_timer 0 (Vec3 0 0 0) ''forward'' 3)"
    by (simp add: f moving1_fields)
  show "quit_called (bot_client (insts moving2 0))" by (simp add: f moving1_fields)
  show "controlState (bot_client (insts moving2 0)) ''forward''"
    using moving1_fields(6) by (simp add: f moving1_fields)
qed

lemma overlap7_timer:
  "timers overlap7 0 = Some \<lparr>repeating = True, delay = 50, callback = ExecuteAction 0 ''mine''\<rparr>"
proof -
  have b: "bots overlap4 (bot_id bob) = Some 0" by (simp add: overlap4_fields)
  have "timers overlap7 = timers (stopBot overlap4 ''b1'')"
    using b by (simp add: overlap7_def startBot_def Let_def split: option.splits)
  then show ?thesis using b by (simp add: stopBot_running(2) overlap4_fields)
qed

subsection \<open>The steps of a start\<close>

lemma stopBot_in_two:
  "bots w botId \<noteq> None \<Longrightarrow>
   stopBot w botId = emit (stopBot_start w botId) (StatusChange botId ''offline'' None)"
  by (auto simp add: stopBot_def stopBot_start_def Let_def)

lemma startBot_in_steps:
  "startBot w d =
     (if bots w (bot_id d) \<noteq> None
      then (let w1 = snd (startBot_start w d);
                w2 = snd (startBot_resume w1 d EmitOffline);
                w3 = snd (startBot_resume w2 d SetConnecting)
            in case startBot_resume w3 d CreateClient of
                 (Inr res, w') \<Rightarrow> (res, w')
               | (Inl p, w') \<Rightarrow> (Inr (), w'))
      else (case startBot_resume (snd (startBot_start w d)) d CreateClient of
              (Inr res, w') \<Rightarrow> (res, w')
            | (Inl p, w') \<Rightarrow> (Inr (), w')))"
  by (auto simp add: startBot_def startBot_start_def startBot_resume_def stopBot_in_two Let_def
      split: option.splits)

text \<open>
  Two starts of a bot that does not run, made in the same turn: each has passed the test
  of the registry before either registers its session, so two clients are created, the
  second registration replaces the first, and \<^verbatim>\<open>quit\<close> is called on neither client.
\<close>

lemma twice_fields:
  "startBot_start world0 bob = (CreateClient, twice1)"
  "startBot_start twice1 bob = (CreateClient, twice2)"
  "bots twice3 = [''b1'' \<mapsto> 0]"
  "bots twice4 = [''b1'' \<mapsto> Suc 0]"
  "quit_called (bot_client (insts twice4 0)) = False"
  "quit_called (bot_client (insts twice4 (Suc 0))) = False"
  "bot_id (data (insts twice4 0)) = ''b1''"
  "bot_id (data (insts twice4 (Suc 0))) = ''b1''"
  by (simp_all add: twice4_def twice3_def twice2_def twice1_def startBot_start_def
      startBot_resume_def Let_def world0_def new_client_def)

text \<open>
  C1. The code keeps neither half of the claim. A session that the registry has lost is
  not stopped by the next start: the bot of \<open>world1\<close> is started again (\<open>restart1\<close>:
  the old session is stopped, the new one is at address 1); the client of the old session
  then reports its end, and the listener removes the registry entry of the identifier,
  which by now is the entry of the new session (\<open>restart2\<close>); the next start finds no
  entry and stops nothing (\<open>restart3\<close>): the sessions at 1 and at 2 are both for
  \<^verbatim>\<open>b1\<close>, and \<^verbatim>\<open>quit\<close> was called on neither client. And a session that the
  registry holds is not stopped fully: the position check of a move that is under way
  (\<open>moving1\<close>) is still scheduled after the restart (\<open>moving2\<close>), with the flag still set
  on the client that was quit, and so is the timer that the overlapping requests of
  \<open>overlap4\<close> left unregistered (\<open>overlap7\<close>). And two starts made in the same turn
  for the bot of \<open>world0\<close>, which does not run, both pass the test of the registry before
  either registers its session (\<open>twice1\<close> to \<open>twice4\<close>): the sessions at 0 and at 1 are
  both for \<^verbatim>\<open>b1\<close>, and \<^verbatim>\<open>quit\<close> was called on neither client.
\<close>

theorem restart_leaves_sessions_alive:
  "bots world1 ''b1'' = Some 0 \<and>
   bots restart1 ''b1'' = Some 1 \<and> quit_called (bot_client (insts restart1 0)) \<and>
   bots restart2 ''b1'' = None \<and> \<not> quit_called (bot_client (insts restart2 1)) \<and>
   bots restart3 ''b1'' = Some 2 \<and>
   \<not> quit_called (bot_client (insts restart3 1)) \<and>
   \<not> quit_called (bot_client (insts restart3 2)) \<and>
   bot_id (data (insts restart3 1)) = ''b1'' \<and> bot_id (data (insts restart3 2)) = ''b1'' \<and>
   bots moving1 ''b1'' = Some 0 \<and>
   timers moving1 0 = Some (poll_timer 0 (Vec3 0 0 0) ''forward'' 3) \<and>
   bots moving2 ''b1'' = Some 1 \<and>
   timers moving2 0 = Some (poll_timer 0 (Vec3 0 0 0) ''forward'' 3) \<and>
   quit_called (bot_client (insts moving2 0)) \<and>
   controlState (bot_client (insts moving2 0)) ''forward'' \<and>
   bots overlap4 ''b1'' = Some 0 \<and>
   timers overlap7 0 =
     Some \<lparr>repeating = True, delay = 50, callback = ExecuteAction 0 ''mine''\<rparr> \<and>
   bots world0 ''b1'' = None \<and>
   startBot_start world0 bob = (CreateClient, twice1) \<and>
   startBot_start twice1 bob = (CreateClient, twice2) \<and>
   twice3 = snd (startBot_resume twice2 bob CreateClient) \<and>
   twice4 = snd (startBot_resume twice3 bob CreateClient) \<and>
   bots twice4 ''b1'' = Some 1 \<and>
   \<not> quit_called (bot_client (insts twice4 0)) \<and>
   \<not> quit_called (bot_client (insts twice4 1)) \<and>
   bot_id (data (insts twice4 0)) = ''b1'' \<and> bot_id (data (insts twice4 1)) = ''b1''"
proof -
  have "bots world0 ''b1'' = None" by (simp add: world0_def)
  moreover have "twice3 = snd (startBot_resume twice2 bob CreateClient)"
    and "twice4 = snd (startBot_resume twice3 bob CreateClient)"
    by (simp_all only: twice3_def twice4_def)
  ultimately show ?thesis
    by (simp add: world1_fields restart1_fields restart2_fields restart3_fields moving1_fields
        moving2_fields overlap4_fields overlap7_timer twice_fields numeral_2_eq_2
        new_client_def)
qed

subsection \<open>Only a request for the kind sets a timer that runs its behaviour\<close>

lemma kind_timers_same:
  "timers w' = timers w \<Longrightarrow> kind_timers w' r k \<subseteq> kind_timers w r k"
  by (simp add: kind_timers_def)


lemma kind_timers_clearIntervals:
  "kind_timers (clearIntervals w hs) r k \<subseteq> kind_timers w r k"
  by (auto simp add: kind_timers_def clearIntervals_timers split: if_splits)

lemma kind_timers_upd_inst [simp]:
  "kind_timers (upd_inst w r' f) r k = kind_timers w r k"
  "kind_timers (upd_client w r' g) r k = kind_timers w r k"
  "kind_timers (setControlState w r' c v) r k = kind_timers w r k"
  "kind_timers (issue w r' cmd) r k = kind_timers w r k"
  "kind_timers (emit w e) r k = kind_timers w r k"
  "kind_timers (storage_updateBot w i u) r k = kind_timers w r k"
  by (simp_all add: kind_timers_def)




















lemma recurring_kind:
  "recurring k mode interval = Some act \<Longrightarrow> recurring k mode' interval' \<noteq> None"
  by (auto simp add: recurring_def split: if_splits)















end
